theory Spec2Isabelle
  imports Complex_Main
begin

section \<open>Hamiltonian Monte Carlo samplers (hmc/samplers.py)\<close>

text \<open>
  A shallow embedding of the sampler classes of \<^verbatim>\<open>src/hmc/samplers.py\<close>.

  \<^item> Python floats and numpy float arrays are modelled by \<open>real\<close> and \<open>real list\<close>;
    Python integers by \<open>int\<close> (\<open>nat\<close> for the values of a \<^verbatim>\<open>range\<close>).
  \<^item> A \<^verbatim>\<open>ChainState\<close> object lives in a store (a list of objects, the address of an
    object being its index), because \<^verbatim>\<open>_sample_dynamics_transition\<close> updates the
    \<^verbatim>\<open>dir\<close> attribute in place through two names that may denote the same object.
  \<^item> The Hamiltonian system, the integrator and the random number generator are
    collaborators whose code is not part of the file; they are parameters of the model.
  \<^item> Every exception the file can raise is a value of type \<open>error\<close>.
\<close>

subsection \<open>Data model\<close>

type_synonym vec = "real list"

type_synonym addr = nat

record chain_state =
  pos :: vec
  mom :: "vec option"
  dir :: int
  n_dim :: nat

datatype error =
    AssertionError
  | AttributeError
  | TypeError
  | ValueError
  | IndexError
  | UnboundLocalError string

text \<open>The calls of \<^verbatim>\<open>logger.warning\<close>, one constructor for each message of the file.\<close>

datatype warning =
    TrajectoryIntegratorError string
  | BuildTreeDivergence real
  | BuildTreeIntegratorError string

text \<open>
  The collaborators held by a sampler object: \<^verbatim>\<open>self.system\<close>, \<^verbatim>\<open>self.integrator\<close> and
  \<^verbatim>\<open>self.rng\<close>. The type \<open>'r\<close> is the internal state of the random number generator;
  each draw returns the value drawn and the next generator state. A step of the
  integrator either raises a \<^verbatim>\<open>RuntimeError\<close> with a message (\<open>Inl\<close>) or returns a new
  state object (\<open>Inr\<close>), leaving the object it was given untouched.
\<close>

record 'r hmc =
  system_h :: "chain_state \<Rightarrow> real"
  system_dh_dmom :: "chain_state \<Rightarrow> vec"
  system_sample_momentum :: "chain_state \<Rightarrow> 'r \<Rightarrow> vec \<times> 'r"
  integrator_step :: "chain_state \<Rightarrow> string + chain_state"
  rng_uniform :: "'r \<Rightarrow> real \<times> 'r"
  rng_random_integers :: "int \<Rightarrow> int \<Rightarrow> 'r \<Rightarrow> int \<times> 'r"

text \<open>
  Everything a method can change: the objects of the store, the state of the random
  number generator and the warnings logged so far.
\<close>

record 'r world =
  store :: "chain_state list"
  rng :: 'r
  warnings :: "warning list"

subsection \<open>RandomMetropolisHMC.__init__\<close>

text \<open>
  The constructor keeps the range when the \<^verbatim>\<open>assert\<close> of line 196 holds and raises
  \<^verbatim>\<open>AssertionError\<close> otherwise.
\<close>

definition RandomMetropolisHMC_init :: "int \<times> int \<Rightarrow> error + int \<times> int" where
  "RandomMetropolisHMC_init n_step_range =
     (case n_step_range of (n_step_lower, n_step_upper) \<Rightarrow>
        if n_step_lower > 0 \<and> n_step_lower < n_step_upper
        then Inr n_step_range
        else Inl AssertionError)"

subsection \<open>BaseMetropolisHMC\<close>

text \<open>
  The dictionary of transition statistics built at lines 138-139 and 146-147.
\<close>

record metropolis_stats =
  hamiltonian :: real
  accept_prob :: real
  n_step :: int

text \<open>
  \<^verbatim>\<open>state.dir *= -1\<close>: the object at the address is updated in place, so the change is
  seen through every name bound to that address.
\<close>

definition negate_dir :: "addr \<Rightarrow> 'r world \<Rightarrow> 'r world" where
  "negate_dir a w =
     w\<lparr>store := (store w)[a := (store w ! a)\<lparr>dir := dir (store w ! a) * (- 1)\<rparr>]\<rparr>"

text \<open>
  The loop of lines 133-134 over the values \<open>s\<close> of \<^verbatim>\<open>range(n_step)\<close>. Each step of the
  integrator returns a new object, which is allocated at the end of the store and
  becomes \<^verbatim>\<open>state_p\<close>. When the integrator raises, the result is \<open>Inl\<close> of the message, the
  value of the loop variable \<open>s\<close> at that moment and the world reached.
\<close>

fun integrate_steps ::
  "'r hmc \<Rightarrow> nat list \<Rightarrow> addr \<Rightarrow> 'r world \<Rightarrow> (string \<times> nat \<times> 'r world) + (addr \<times> 'r world)"
where
  "integrate_steps env [] state_p w = Inr (state_p, w)"
| "integrate_steps env (s # ss) state_p w =
     (case integrator_step env (store w ! state_p) of
        Inl e \<Rightarrow> Inl (e, s, w)
      | Inr x \<Rightarrow> integrate_steps env ss (length (store w)) (w\<lparr>store := store w @ [x]\<rparr>))"

text \<open>
  \<^verbatim>\<open>_sample_dynamics_transition(self, state, n_step)\<close>, lines 129-148. The name \<open>state\<close>
  is an address; \<^verbatim>\<open>state_p = state\<close> makes \<open>state_p\<close> the same address, and it stays so
  when \<^verbatim>\<open>range(n_step)\<close> is empty.
\<close>

definition BaseMetropolisHMC_sample_dynamics_transition ::
  "'r hmc \<Rightarrow> addr \<Rightarrow> int \<Rightarrow> 'r world \<Rightarrow> (addr \<times> metropolis_stats) \<times> 'r world"
where
  "BaseMetropolisHMC_sample_dynamics_transition env state n w =
     (let h_init = system_h env (store w ! state) in
      case integrate_steps env [0..<nat n] state w of
        Inl (e, s, w1) \<Rightarrow>
          ((state, \<lparr>hamiltonian = h_init, accept_prob = 0, n_step = int s\<rparr>),
           w1\<lparr>warnings := warnings w1 @ [TrajectoryIntegratorError e]\<rparr>)
      | Inr (state_p, w1) \<Rightarrow>
          (let w2 = negate_dir state_p w1;
               h_final = system_h env (store w2 ! state_p);
               a = min 1 (exp (h_init - h_final));
               (u, r) = rng_uniform env (rng w2);
               w3 = w2\<lparr>rng := r\<rparr>;
               state' = (if u < a then state_p else state);
               w4 = negate_dir state' w3
           in ((state', \<lparr>hamiltonian = system_h env (store w4 ! state'),
                         accept_prob = a, n_step = n\<rparr>), w4)))"

subsection \<open>StaticMetropolisHMC and RandomMetropolisHMC\<close>

definition StaticMetropolisHMC_sample_dynamics_transition ::
  "'r hmc \<Rightarrow> int \<Rightarrow> addr \<Rightarrow> 'r world \<Rightarrow> (addr \<times> metropolis_stats) \<times> 'r world"
where
  "StaticMetropolisHMC_sample_dynamics_transition env n state w =
     BaseMetropolisHMC_sample_dynamics_transition env state n w"

definition RandomMetropolisHMC_sample_dynamics_transition ::
  "'r hmc \<Rightarrow> int \<times> int \<Rightarrow> addr \<Rightarrow> 'r world \<Rightarrow> (addr \<times> metropolis_stats) \<times> 'r world"
where
  "RandomMetropolisHMC_sample_dynamics_transition env n_step_range state w =
     (let (n, r) = rng_random_integers env (fst n_step_range) (snd n_step_range) (rng w)
      in BaseMetropolisHMC_sample_dynamics_transition env state n (w\<lparr>rng := r\<rparr>))"

subsection \<open>BaseHamiltonianMonteCarlo.sample_momentum_transition\<close>

text \<open>Lines 63-65: the momentum of the object is replaced in place and the object returned.\<close>

definition BaseHamiltonianMonteCarlo_sample_momentum_transition ::
  "'r hmc \<Rightarrow> addr \<Rightarrow> 'r world \<Rightarrow> addr \<times> 'r world"
where
  "BaseHamiltonianMonteCarlo_sample_momentum_transition env state w =
     (let (m, r) = system_sample_momentum env (store w ! state) (rng w)
      in (state, w\<lparr>store := (store w)[state := (store w ! state)\<lparr>mom := Some m\<rparr>], rng := r\<rparr>))"

subsection \<open>BaseCorrelatedMomentumHMC.sample_momentum_transition\<close>

text \<open>
  What a momentum transition hands back to its caller: a state object, or a bare
  numpy array.
\<close>

datatype returned = ReturnedState addr | ReturnedArray vec

text \<open>
  Lines 238-246. The first statement of the body, line 239, is
  \<^verbatim>\<open>return self.system.sample_momentum(state, self.rng)\<close>: the method returns the sampled
  momentum itself and never reaches lines 240-246, so \<^verbatim>\<open>mom_resample_coeff\<close> is not read
  and no attribute of the state is assigned.
\<close>

definition BaseCorrelatedMomentumHMC_sample_momentum_transition ::
  "'r hmc \<Rightarrow> real \<Rightarrow> addr \<Rightarrow> 'r world \<Rightarrow> returned \<times> 'r world"
where
  "BaseCorrelatedMomentumHMC_sample_momentum_transition env mom_resample_coeff state w =
     (let (m, r) = system_sample_momentum env (store w ! state) (rng w)
      in (ReturnedArray m, w\<lparr>rng := r\<rparr>))"

text \<open>
  The update the specification describes, which is also what the unreachable lines
  240-246 compute: full resampling for coefficient 1, the blend
  \<open>sqrt (1 - \<rho>\<^sup>2) * momentum + \<rho> * momentum_independent\<close> for any other non-zero
  coefficient, no change for coefficient 0; the state object is returned. It is used
  only to compare the method with its description.
\<close>

definition documented_correlated_momentum_transition ::
  "'r hmc \<Rightarrow> real \<Rightarrow> addr \<Rightarrow> 'r world \<Rightarrow> error + returned \<times> 'r world"
where
  "documented_correlated_momentum_transition env mom_resample_coeff state w =
     (if mom_resample_coeff = 1 then
        (let (m, r) = system_sample_momentum env (store w ! state) (rng w)
         in Inr (ReturnedState state,
                 w\<lparr>store := (store w)[state := (store w ! state)\<lparr>mom := Some m\<rparr>], rng := r\<rparr>))
      else if mom_resample_coeff \<noteq> 0 then
        (let (mom_ind, r) = system_sample_momentum env (store w ! state) (rng w)
         in case mom (store w ! state) of
              None \<Rightarrow> Inl TypeError
            | Some m \<Rightarrow>
                Inr (ReturnedState state,
                     w\<lparr>store := (store w)[state := (store w ! state)
                          \<lparr>mom := Some (map2 (\<lambda>p q. sqrt (1 - mom_resample_coeff\<^sup>2) * p
                                                       + mom_resample_coeff * q) m mom_ind)\<rparr>],
                       rng := r\<rparr>))
      else Inr (ReturnedState state, w))"

subsection \<open>DynamicMultinomialHMC\<close>

text \<open>
  The dictionary \<^verbatim>\<open>stats\<close> of a dynamic transition: created with three keys at line 380
  and completed with three more at lines 409-414.
\<close>

record tree_stats =
  n_step :: int
  divergent :: bool
  sum_acc_prob :: real

record dynamic_stats = tree_stats +
  accept_prob :: real
  hamiltonian :: real
  tree_depth :: nat

text \<open>
  Modelled from the spec: \<^verbatim>\<open>LogRepFloat\<close> is imported from \<^verbatim>\<open>hmc.utils\<close>, which is not
  part of the source given. The specification describes it as a non-negative real
  number represented by its natural logarithm, with an addition that yields the exact
  sum of the represented numbers and a division; running weights are accumulated into
  the object passed (\<^verbatim>\<open>+=\<close> updates the caller's accumulator). The model keeps the
  number represented: \<^verbatim>\<open>LogRepFloat(0.)\<close> is \<open>0\<close>, \<^verbatim>\<open>LogRepFloat(log_val=x)\<close> is \<open>exp x\<close>,
  and the quotient of two weights is a float.
\<close>

type_synonym log_rep_float = real

definition LogRepFloat_log_val :: "real \<Rightarrow> log_rep_float" where
  "LogRepFloat_log_val x = exp x"

text \<open>
  Elementwise sum and inner product of numpy vectors. All vectors of a chain have the
  length \<^verbatim>\<open>n_dim\<close> of its states (the invariant of \<^verbatim>\<open>ChainState\<close>).
\<close>

definition vec_add :: "vec \<Rightarrow> vec \<Rightarrow> vec" where
  "vec_add a b = map2 (+) a b"

definition dot :: "vec \<Rightarrow> vec \<Rightarrow> real" where
  "dot a b = sum_list (map2 (*) a b)"

text \<open>
  \<^verbatim>\<open>termination_criterion\<close>, lines 315-318. A name bound to \<^verbatim>\<open>None\<close> cannot be passed to
  the system's gradient; Python's \<^verbatim>\<open>or\<close> evaluates its second operand only when the first
  is false.
\<close>

definition termination_criterion ::
  "'r hmc \<Rightarrow> addr option \<Rightarrow> addr option \<Rightarrow> vec \<Rightarrow> 'r world \<Rightarrow> error + bool"
where
  "termination_criterion env state_1 state_2 sum_mom w =
     (case state_1 of
        None \<Rightarrow> Inl AttributeError
      | Some s1 \<Rightarrow>
          if dot (system_dh_dmom env (store w ! s1)) sum_mom < 0 then Inr True
          else (case state_2 of
                  None \<Rightarrow> Inl AttributeError
                | Some s2 \<Rightarrow> Inr (dot (system_dh_dmom env (store w ! s2)) sum_mom < 0)))"

text \<open>
  \<^verbatim>\<open>build_tree\<close>, lines 329-374. The arguments \<^verbatim>\<open>sum_mom\<close>, \<^verbatim>\<open>sum_weight\<close> and \<^verbatim>\<open>stats\<close> are
  objects updated in place; the model returns their new values next to the tuple the
  method returns. The result tuple is \<open>(terminate, state_i, state_o, state_p)\<close> with
  \<open>None\<close> for Python's \<^verbatim>\<open>None\<close>. A \<^verbatim>\<open>RuntimeError\<close> of the integrator is caught (lines
  345-349); a momentum that is \<^verbatim>\<open>None\<close> makes \<^verbatim>\<open>sum_mom += state.mom\<close> raise a
  \<^verbatim>\<open>TypeError\<close>, which is not caught.
\<close>

type_synonym tree_result = "bool \<times> addr option \<times> addr option \<times> addr option"

fun build_tree ::
  "'r hmc \<Rightarrow> real \<Rightarrow> nat \<Rightarrow> addr \<Rightarrow> vec \<Rightarrow> log_rep_float \<Rightarrow> tree_stats \<Rightarrow> real \<Rightarrow> 'r world
     \<Rightarrow> error + (tree_result \<times> vec \<times> log_rep_float \<times> tree_stats \<times> 'r world)"
where
  "build_tree env max_delta_h 0 state sum_mom sum_weight stats h_init w =
     (case integrator_step env (store w ! state) of
        Inl e \<Rightarrow>
          Inr ((True, None, None, None), sum_mom, sum_weight, stats,
               w\<lparr>warnings := warnings w @ [BuildTreeIntegratorError e]\<rparr>)
      | Inr x \<Rightarrow>
          (let state' = length (store w);
               w1 = w\<lparr>store := store w @ [x]\<rparr>;
               hamiltonian = system_h env x
           in case mom x of
                None \<Rightarrow> Inl TypeError
              | Some m \<Rightarrow>
                  (let sum_mom' = vec_add sum_mom m;
                       sum_weight' = sum_weight + LogRepFloat_log_val (- hamiltonian);
                       stats1 = stats\<lparr>sum_acc_prob :=
                                  sum_acc_prob stats + min 1 (exp (h_init - hamiltonian))\<rparr>;
                       stats2 = stats1\<lparr>n_step := n_step stats1 + 1\<rparr>;
                       terminate = (hamiltonian - h_init > max_delta_h)
                   in if terminate
                      then Inr ((terminate, Some state', Some state', Some state'),
                                sum_mom', sum_weight', stats2\<lparr>divergent := True\<rparr>,
                                w1\<lparr>warnings := warnings w1
                                     @ [BuildTreeDivergence (hamiltonian - h_init)]\<rparr>)
                      else Inr ((terminate, Some state', Some state', Some state'),
                                sum_mom', sum_weight', stats2, w1))))"
| "build_tree env max_delta_h (Suc depth) state sum_mom sum_weight stats h_init w =
     (let sum_mom_i = replicate (n_dim (store w ! state)) 0;
          sum_mom_o = replicate (n_dim (store w ! state)) 0;
          sum_weight_i = 0;
          sum_weight_o = 0
      in case build_tree env max_delta_h depth state sum_mom_i sum_weight_i stats h_init w of
           Inl e \<Rightarrow> Inl e
         | Inr ((terminate_i, state_i, state1, state_pi), sum_mom_i', sum_weight_i', stats1, w1) \<Rightarrow>
             if terminate_i then Inr ((True, None, None, None), sum_mom, sum_weight, stats1, w1)
             else
               (case state1 of
                  None \<Rightarrow> Inl AttributeError
                | Some edge \<Rightarrow>
                    (case build_tree env max_delta_h depth edge sum_mom_o sum_weight_o stats1
                            h_init w1 of
                       Inl e \<Rightarrow> Inl e
                     | Inr ((terminate_o, unused, state_o, state_po),
                            sum_mom_o', sum_weight_o', stats2, w2) \<Rightarrow>
                         if terminate_o
                         then Inr ((True, None, None, None), sum_mom, sum_weight, stats2, w2)
                         else
                           (let sum_weight_s = sum_weight_i' + sum_weight_o';
                                accept_o_prob = sum_weight_o' / sum_weight_s;
                                (u, r) = rng_uniform env (rng w2);
                                w3 = w2\<lparr>rng := r\<rparr>;
                                state_p = (if u < accept_o_prob then state_po else state_pi);
                                sum_weight' = sum_weight + sum_weight_s;
                                sum_mom_s = vec_add sum_mom_i' sum_mom_o'
                            in case termination_criterion env state_i state_o sum_mom_s w3 of
                                 Inl e \<Rightarrow> Inl e
                               | Inr terminate_s \<Rightarrow>
                                   Inr ((terminate_s, state_i, state_o, state_p),
                                        vec_add sum_mom sum_mom_s, sum_weight', stats2, w3)))))"

text \<open>
  The local variables of the doubling loop of \<^verbatim>\<open>sample_dynamics_transition\<close> that an
  iteration may change: \<open>(state_n, state_l, state_r, sum_mom, sum_weight, stats)\<close> and
  the world.
\<close>

type_synonym 'r loop_vars =
  "addr option \<times> addr option \<times> addr option \<times> vec \<times> log_rep_float \<times> tree_stats \<times> 'r world"

text \<open>
  The loop of lines 385-408 over the values of \<^verbatim>\<open>range(self.max_tree_depth)\<close> still to come.
  The argument \<open>depth\<close> is the loop variable: \<open>None\<close> as long as no iteration has begun
  (the name is not bound), \<open>Some d\<close> afterwards. A \<^verbatim>\<open>break\<close> leaves the loop with the
  variables as they are.
\<close>

fun doubling_loop ::
  "'r hmc \<Rightarrow> real \<Rightarrow> real \<Rightarrow> addr \<Rightarrow> nat list \<Rightarrow> nat option \<Rightarrow> 'r loop_vars
     \<Rightarrow> error + (nat option \<times> 'r loop_vars)"
where
  "doubling_loop env max_delta_h h_init state [] depth vars = Inr (depth, vars)"
| "doubling_loop env max_delta_h h_init state (d # ds) depth
       (state_n, state_l, state_r, sum_mom, sum_weight, stats, w) =
     (let (u, r) = rng_uniform env (rng w);
          w0 = w\<lparr>rng := r\<rparr>;
          direction = 2 * (if u < 1 / 2 then 1 else 0) - (1 :: int);
          sum_mom_s = replicate (n_dim (store w0 ! state)) 0;
          sum_weight_s = 0
      in case (if direction = 1 then state_r else state_l) of
           None \<Rightarrow> Inl AttributeError
         | Some edge \<Rightarrow>
             (case build_tree env max_delta_h d edge sum_mom_s sum_weight_s stats h_init w0 of
                Inl e \<Rightarrow> Inl e
              | Inr ((terminate_s, unused, state_e, state_p),
                     sum_mom_s', sum_weight_s', stats', w1) \<Rightarrow>
                  (let state_r' = (if direction = 1 then state_e else state_r);
                       state_l' = (if direction = 1 then state_l else state_e)
                   in if terminate_s
                      then Inr (Some d, (state_n, state_l', state_r', sum_mom, sum_weight,
                                         stats', w1))
                      else
                        (let (u2, r2) = rng_uniform env (rng w1);
                             w2 = w1\<lparr>rng := r2\<rparr>;
                             state_n' = (if u2 < sum_weight_s' / sum_weight
                                         then state_p else state_n);
                             sum_weight' = sum_weight + sum_weight_s';
                             sum_mom' = vec_add sum_mom sum_mom_s'
                         in case termination_criterion env state_l' state_r' sum_mom' w2 of
                              Inl e \<Rightarrow> Inl e
                            | Inr stop \<Rightarrow>
                                if stop
                                then Inr (Some d, (state_n', state_l', state_r', sum_mom',
                                                   sum_weight', stats', w2))
                                else doubling_loop env max_delta_h h_init state ds (Some d)
                                       (state_n', state_l', state_r', sum_mom', sum_weight',
                                        stats', w2)))))"

text \<open>
  \<^verbatim>\<open>sample_dynamics_transition\<close>, lines 376-415. \<^verbatim>\<open>state.mom.copy()\<close> raises an
  \<^verbatim>\<open>AttributeError\<close> when the momentum is \<^verbatim>\<open>None\<close>. The two copies of the state are new
  objects, whose directions are then set. After the loop, line 414 reads the loop
  variable \<^verbatim>\<open>depth\<close>, which is unbound when the loop body never ran.
\<close>

definition DynamicMultinomialHMC_sample_dynamics_transition ::
  "'r hmc \<Rightarrow> int \<Rightarrow> real \<Rightarrow> addr \<Rightarrow> 'r world \<Rightarrow> error + ((addr \<times> dynamic_stats) \<times> 'r world)"
where
  "DynamicMultinomialHMC_sample_dynamics_transition env max_tree_depth max_delta_h state w =
     (let h_init = system_h env (store w ! state) in
      case mom (store w ! state) of
        None \<Rightarrow> Inl AttributeError
      | Some m \<Rightarrow>
          (let sum_mom = m;
               sum_weight = LogRepFloat_log_val (- h_init);
               stats = \<lparr>n_step = 0, divergent = False, sum_acc_prob = 0\<rparr>;
               state_l = length (store w);
               state_r = length (store w) + 1;
               w1 = w\<lparr>store := store w @ [(store w ! state)\<lparr>dir := - 1\<rparr>,
                                            (store w ! state)\<lparr>dir := 1\<rparr>]\<rparr>
           in case doubling_loop env max_delta_h h_init state [0..<nat max_tree_depth] None
                     (Some state, Some state_l, Some state_r, sum_mom, sum_weight, stats, w1) of
                Inl e \<Rightarrow> Inl e
              | Inr (depth, (state_n, state_l', state_r', sum_mom', sum_weight', stats', w2)) \<Rightarrow>
                  (let a = (if n_step stats' > 0
                            then sum_acc_prob stats' / real_of_int (n_step stats') else 0)
                   in case state_n of
                        None \<Rightarrow> Inl AttributeError
                      | Some sn \<Rightarrow>
                          (case depth of
                             None \<Rightarrow> Inl (UnboundLocalError ''depth'')
                           | Some d \<Rightarrow>
                               Inr ((sn, tree_stats.extend stats'
                                           \<lparr>accept_prob = a,
                                            hamiltonian = system_h env (store w2 ! sn),
                                            tree_depth = d\<rparr>), w2)))))"

subsection \<open>Chain statistics and the chain driver\<close>

text \<open>
  A one-dimensional numpy array created by \<^verbatim>\<open>np.empty\<close>. Its initial contents are
  unspecified, so a cell is modelled by the values stored into it so far, most recent
  first: the empty list is a cell never assigned, and the value read from a cell is the
  head of its list. \<^verbatim>\<open>np.empty\<close> raises \<^verbatim>\<open>ValueError\<close> for a negative length; an assignment
  \<^verbatim>\<open>a[i] = v\<close> counts a negative index from the end and raises \<^verbatim>\<open>IndexError\<close> out of range.
\<close>

type_synonym 'a ndarray = "'a list list"

definition np_empty :: "int \<Rightarrow> error + 'a ndarray" where
  "np_empty n = (if n < 0 then Inl ValueError else Inr (replicate (nat n) []))"

definition setitem :: "'a ndarray \<Rightarrow> int \<Rightarrow> 'a \<Rightarrow> error + 'a ndarray" where
  "setitem a i v =
     (let n = int (length a); j = (if i < 0 then n + i else i)
      in if 0 \<le> j \<and> j < n then Inr (a[nat j := v # a ! nat j]) else Inl IndexError)"

text \<open>Every cell of the array has been assigned exactly once.\<close>

definition written_once :: "'a ndarray \<Rightarrow> bool" where
  "written_once a = list_all (\<lambda>c. length c = 1) a"

text \<open>
  The cells below index \<open>k\<close> have been assigned exactly once and the cells from \<open>k\<close> on
  never: the state of an array that is filled from the left.
\<close>

definition written_upto :: "nat \<Rightarrow> 'a ndarray \<Rightarrow> bool" where
  "written_upto k a = (\<forall>i<length a. length (a ! i) = (if i < k then 1 else 0))"

text \<open>The dictionary of arrays of \<^verbatim>\<open>BaseMetropolisHMC.initialise_chain_stats\<close>, lines 116-120.\<close>

record chain_stats =
  hamiltonian :: "real ndarray"
  n_step :: "int ndarray"
  accept_prob :: "real ndarray"

text \<open>
  The dictionary of \<^verbatim>\<open>DynamicMultinomialHMC.initialise_chain_stats\<close>, lines 298-304: the
  same three keys and two more.
\<close>

record dynamic_chain_stats = chain_stats +
  tree_depth :: "nat ndarray"
  divergent :: "bool ndarray"

text \<open>\<^verbatim>\<open>BaseMetropolisHMC.initialise_chain_stats\<close>, lines 115-122.\<close>

definition BaseMetropolisHMC_initialise_chain_stats ::
  "'r hmc \<Rightarrow> addr \<Rightarrow> int \<Rightarrow> 'r world \<Rightarrow> error + chain_stats"
where
  "BaseMetropolisHMC_initialise_chain_stats env init_state n_sample w =
     (case np_empty n_sample of Inl e \<Rightarrow> Inl e | Inr ham \<Rightarrow>
      case np_empty (n_sample - 1) of Inl e \<Rightarrow> Inl e | Inr ns \<Rightarrow>
      case np_empty (n_sample - 1) of Inl e \<Rightarrow> Inl e | Inr ap \<Rightarrow>
      case setitem ham 0 (system_h env (store w ! init_state)) of Inl e \<Rightarrow> Inl e | Inr ham' \<Rightarrow>
        Inr \<lparr>hamiltonian = ham', n_step = ns, accept_prob = ap\<rparr>)"

text \<open>\<^verbatim>\<open>BaseMetropolisHMC.update_chain_stats\<close>, lines 124-127.\<close>

definition BaseMetropolisHMC_update_chain_stats ::
  "int \<Rightarrow> chain_stats \<Rightarrow> metropolis_stats \<Rightarrow> error + chain_stats"
where
  "BaseMetropolisHMC_update_chain_stats s cs trans_stats =
     (case setitem (hamiltonian cs) s (metropolis_stats.hamiltonian trans_stats) of
        Inl e \<Rightarrow> Inl e | Inr ham \<Rightarrow>
      case setitem (n_step cs) (s - 1) (metropolis_stats.n_step trans_stats) of
        Inl e \<Rightarrow> Inl e | Inr ns \<Rightarrow>
      case setitem (accept_prob cs) (s - 1) (metropolis_stats.accept_prob trans_stats) of
        Inl e \<Rightarrow> Inl e | Inr ap \<Rightarrow>
        Inr \<lparr>hamiltonian = ham, n_step = ns, accept_prob = ap\<rparr>)"

text \<open>\<^verbatim>\<open>DynamicMultinomialHMC.initialise_chain_stats\<close>, lines 297-306.\<close>

definition DynamicMultinomialHMC_initialise_chain_stats ::
  "'r hmc \<Rightarrow> addr \<Rightarrow> int \<Rightarrow> 'r world \<Rightarrow> error + dynamic_chain_stats"
where
  "DynamicMultinomialHMC_initialise_chain_stats env init_state n_sample w =
     (case np_empty n_sample of Inl e \<Rightarrow> Inl e | Inr ham \<Rightarrow>
      case np_empty (n_sample - 1) of Inl e \<Rightarrow> Inl e | Inr ns \<Rightarrow>
      case np_empty (n_sample - 1) of Inl e \<Rightarrow> Inl e | Inr ap \<Rightarrow>
      case np_empty (n_sample - 1) of Inl e \<Rightarrow> Inl e | Inr td \<Rightarrow>
      case np_empty (n_sample - 1) of Inl e \<Rightarrow> Inl e | Inr dv \<Rightarrow>
      case setitem ham 0 (system_h env (store w ! init_state)) of Inl e \<Rightarrow> Inl e | Inr ham' \<Rightarrow>
        Inr \<lparr>hamiltonian = ham', n_step = ns, accept_prob = ap, tree_depth = td,
             divergent = dv\<rparr>)"

text \<open>\<^verbatim>\<open>DynamicMultinomialHMC.update_chain_stats\<close>, lines 308-313.\<close>

definition DynamicMultinomialHMC_update_chain_stats ::
  "int \<Rightarrow> dynamic_chain_stats \<Rightarrow> dynamic_stats \<Rightarrow> error + dynamic_chain_stats"
where
  "DynamicMultinomialHMC_update_chain_stats s cs trans_stats =
     (case setitem (hamiltonian cs) s (dynamic_stats.hamiltonian trans_stats) of
        Inl e \<Rightarrow> Inl e | Inr ham \<Rightarrow>
      case setitem (n_step cs) (s - 1) (tree_stats.n_step trans_stats) of
        Inl e \<Rightarrow> Inl e | Inr ns \<Rightarrow>
      case setitem (accept_prob cs) (s - 1) (dynamic_stats.accept_prob trans_stats) of
        Inl e \<Rightarrow> Inl e | Inr ap \<Rightarrow>
      case setitem (tree_depth cs) (s - 1) (dynamic_stats.tree_depth trans_stats) of
        Inl e \<Rightarrow> Inl e | Inr td \<Rightarrow>
      case setitem (divergent cs) (s - 1) (tree_stats.divergent trans_stats) of
        Inl e \<Rightarrow> Inl e | Inr dv \<Rightarrow>
        Inr \<lparr>hamiltonian = ham, n_step = ns, accept_prob = ap, tree_depth = td,
             divergent = dv\<rparr>)"

text \<open>\<^verbatim>\<open>extract_pos\<close>, lines 16-18, the default entry of \<^verbatim>\<open>chain_var_funcs\<close>.\<close>

definition extract_pos :: "chain_state \<Rightarrow> vec" where
  "extract_pos state = pos state"

text \<open>
  Lines 81-84 of \<^verbatim>\<open>sample_chain\<close>: one array of \<^verbatim>\<open>n_sample\<close> rows for each function of
  \<^verbatim>\<open>chain_var_funcs\<close>, with row 0 assigned.
\<close>

fun init_var_chains ::
  "(chain_state \<Rightarrow> vec) list \<Rightarrow> int \<Rightarrow> chain_state \<Rightarrow> error + vec ndarray list"
where
  "init_var_chains [] n_sample st = Inr []"
| "init_var_chains (chain_func # fs) n_sample st =
     (case np_empty n_sample of Inl e \<Rightarrow> Inl e | Inr a \<Rightarrow>
      case setitem a 0 (chain_func st) of Inl e \<Rightarrow> Inl e | Inr a' \<Rightarrow>
      case init_var_chains fs n_sample st of Inl e \<Rightarrow> Inl e | Inr as \<Rightarrow> Inr (a' # as))"

text \<open>
  Lines 94-95: \<^verbatim>\<open>var_chain[s + 1] = chain_func(state)\<close> for the pairs of
  \<^verbatim>\<open>zip(chain_var_funcs, var_chains)\<close>.
\<close>

fun store_vars ::
  "(chain_state \<Rightarrow> vec) list \<Rightarrow> vec ndarray list \<Rightarrow> int \<Rightarrow> chain_state \<Rightarrow> error + vec ndarray list"
where
  "store_vars (chain_func # fs) (var_chain # as) i st =
     (case setitem var_chain i (chain_func st) of Inl e \<Rightarrow> Inl e | Inr a' \<Rightarrow>
      case store_vars fs as i st of Inl e \<Rightarrow> Inl e | Inr as' \<Rightarrow> Inr (a' # as'))"
| "store_vars fs as i st = Inr as"

text \<open>
  The loop of lines 90-95 over the values \<open>s\<close> of \<^verbatim>\<open>range(n_sample - 1)\<close>. The methods a
  subclass provides are arguments: the momentum transition \<open>smt\<close>, the dynamics
  transition \<open>sdt\<close> and \<^verbatim>\<open>update_chain_stats\<close> as \<open>ucs\<close>.
\<close>

fun chain_loop ::
  "(addr \<Rightarrow> 'r world \<Rightarrow> addr \<times> 'r world) \<Rightarrow>
   (addr \<Rightarrow> 'r world \<Rightarrow> error + ((addr \<times> 'ts) \<times> 'r world)) \<Rightarrow>
   (int \<Rightarrow> 'cs \<Rightarrow> 'ts \<Rightarrow> error + 'cs) \<Rightarrow>
   (chain_state \<Rightarrow> vec) list \<Rightarrow> nat list \<Rightarrow> addr \<Rightarrow> 'cs \<Rightarrow> vec ndarray list \<Rightarrow> 'r world \<Rightarrow>
   error + (addr \<times> 'cs \<times> vec ndarray list \<times> 'r world)"
where
  "chain_loop smt sdt ucs chain_var_funcs [] state cs var_chains w =
     Inr (state, cs, var_chains, w)"
| "chain_loop smt sdt ucs chain_var_funcs (s # ss) state cs var_chains w =
     (let (state1, w1) = smt state w
      in case sdt state1 w1 of Inl e \<Rightarrow> Inl e | Inr ((state2, trans_stats), w2) \<Rightarrow>
         case ucs (int s + 1) cs trans_stats of Inl e \<Rightarrow> Inl e | Inr cs' \<Rightarrow>
         case store_vars chain_var_funcs var_chains (int s + 1) (store w2 ! state2) of
           Inl e \<Rightarrow> Inl e
         | Inr var_chains' \<Rightarrow>
             chain_loop smt sdt ucs chain_var_funcs ss state2 cs' var_chains' w2)"

text \<open>
  \<^verbatim>\<open>BaseHamiltonianMonteCarlo.sample_chain\<close>, lines 76-96, with \<^verbatim>\<open>initialise_chain_stats\<close>
  as the argument \<open>ics\<close>. The progress bar of lines 85-89 iterates over the same range
  and is left out. The result is the list of variable chains and the chain statistics.
\<close>

definition sample_chain ::
  "'r hmc \<Rightarrow>
   (addr \<Rightarrow> 'r world \<Rightarrow> addr \<times> 'r world) \<Rightarrow>
   (addr \<Rightarrow> 'r world \<Rightarrow> error + ((addr \<times> 'ts) \<times> 'r world)) \<Rightarrow>
   (addr \<Rightarrow> int \<Rightarrow> 'r world \<Rightarrow> error + 'cs) \<Rightarrow>
   (int \<Rightarrow> 'cs \<Rightarrow> 'ts \<Rightarrow> error + 'cs) \<Rightarrow>
   int \<Rightarrow> addr \<Rightarrow> (chain_state \<Rightarrow> vec) list \<Rightarrow> 'r world \<Rightarrow>
   error + ((vec ndarray list \<times> 'cs) \<times> 'r world)"
where
  "sample_chain env smt sdt ics ucs n_sample state chain_var_funcs w =
     (let w1 = (if mom (store w ! state) = None
                then (let (m, r) = system_sample_momentum env (store w ! state) (rng w)
                      in w\<lparr>store := (store w)[state := (store w ! state)\<lparr>mom := Some m\<rparr>],
                           rng := r\<rparr>)
                else w)
      in case ics state n_sample w1 of Inl e \<Rightarrow> Inl e | Inr cs \<Rightarrow>
         case init_var_chains chain_var_funcs n_sample (store w1 ! state) of
           Inl e \<Rightarrow> Inl e
         | Inr var_chains \<Rightarrow>
             (case chain_loop smt sdt ucs chain_var_funcs [0..<nat (n_sample - 1)] state cs
                     var_chains w1 of
                Inl e \<Rightarrow> Inl e
              | Inr (state', cs', var_chains', w') \<Rightarrow> Inr ((var_chains', cs'), w')))"

text \<open>The chain driver of the concrete sampler classes.\<close>

definition StaticMetropolisHMC_sample_chain ::
  "'r hmc \<Rightarrow> int \<Rightarrow> int \<Rightarrow> addr \<Rightarrow> (chain_state \<Rightarrow> vec) list \<Rightarrow> 'r world \<Rightarrow>
   error + ((vec ndarray list \<times> chain_stats) \<times> 'r world)"
where
  "StaticMetropolisHMC_sample_chain env n =
     sample_chain env
       (BaseHamiltonianMonteCarlo_sample_momentum_transition env)
       (\<lambda>state w. Inr (StaticMetropolisHMC_sample_dynamics_transition env n state w))
       (BaseMetropolisHMC_initialise_chain_stats env)
       BaseMetropolisHMC_update_chain_stats"

definition RandomMetropolisHMC_sample_chain ::
  "'r hmc \<Rightarrow> int \<times> int \<Rightarrow> int \<Rightarrow> addr \<Rightarrow> (chain_state \<Rightarrow> vec) list \<Rightarrow> 'r world \<Rightarrow>
   error + ((vec ndarray list \<times> chain_stats) \<times> 'r world)"
where
  "RandomMetropolisHMC_sample_chain env n_step_range =
     sample_chain env
       (BaseHamiltonianMonteCarlo_sample_momentum_transition env)
       (\<lambda>state w. Inr (RandomMetropolisHMC_sample_dynamics_transition env n_step_range state w))
       (BaseMetropolisHMC_initialise_chain_stats env)
       BaseMetropolisHMC_update_chain_stats"

definition DynamicMultinomialHMC_sample_chain ::
  "'r hmc \<Rightarrow> int \<Rightarrow> real \<Rightarrow> int \<Rightarrow> addr \<Rightarrow> (chain_state \<Rightarrow> vec) list \<Rightarrow> 'r world \<Rightarrow>
   error + ((vec ndarray list \<times> dynamic_chain_stats) \<times> 'r world)"
where
  "DynamicMultinomialHMC_sample_chain env max_tree_depth max_delta_h =
     sample_chain env
       (BaseHamiltonianMonteCarlo_sample_momentum_transition env)
       (DynamicMultinomialHMC_sample_dynamics_transition env max_tree_depth max_delta_h)
       (DynamicMultinomialHMC_initialise_chain_stats env)
       DynamicMultinomialHMC_update_chain_stats"

text \<open>
  The state of the chain statistics when \<open>k\<close> transitions of a chain of \<open>n\<close> samples
  have been recorded: the lengths of the arrays, and how far each has been filled.
\<close>

definition metropolis_inv :: "nat \<Rightarrow> nat \<Rightarrow> chain_stats \<Rightarrow> bool" where
  "metropolis_inv n k cs \<longleftrightarrow>
     length (chain_stats.hamiltonian cs) = n \<and> length (chain_stats.n_step cs) = n - 1 \<and>
     length (chain_stats.accept_prob cs) = n - 1 \<and>
     written_upto (Suc k) (chain_stats.hamiltonian cs) \<and>
     written_upto k (chain_stats.n_step cs) \<and> written_upto k (chain_stats.accept_prob cs)"

definition dynamic_inv :: "nat \<Rightarrow> nat \<Rightarrow> dynamic_chain_stats \<Rightarrow> bool" where
  "dynamic_inv n k cs \<longleftrightarrow>
     metropolis_inv n k (chain_stats.truncate cs) \<and>
     length (dynamic_chain_stats.tree_depth cs) = n - 1 \<and>
     length (dynamic_chain_stats.divergent cs) = n - 1 \<and>
     written_upto k (dynamic_chain_stats.tree_depth cs) \<and>
     written_upto k (dynamic_chain_stats.divergent cs)"

text \<open>
  A name of the dynamic sampler is bound to a state object of the store that has a
  momentum (and not to \<^verbatim>\<open>None\<close>).
\<close>

definition with_momentum :: "'r world \<Rightarrow> addr option \<Rightarrow> bool" where
  "with_momentum w s =
     (case s of None \<Rightarrow> False | Some a \<Rightarrow> a < length (store w) \<and> mom (store w ! a) \<noteq> None)"

subsection \<open>A concrete system for the examples\<close>

text \<open>
  A one-dimensional system whose energy is the position, an integrator that moves the
  position by one unit in the direction of the state and fails once the position is
  three units from the origin, and a generator that replays a recorded list of uniform
  draws.
\<close>

definition toy_hmc :: "real list hmc" where
  "toy_hmc =
     \<lparr>system_h = (\<lambda>s. sum_list (pos s)),
      system_dh_dmom = (\<lambda>s. case mom s of None \<Rightarrow> [] | Some m \<Rightarrow> m),
      system_sample_momentum = (\<lambda>s r. ([5], r)),
      integrator_step = (\<lambda>s. if 3 \<le> \<bar>sum_list (pos s)\<bar> then Inl ''step failed''
                              else Inr (s\<lparr>pos := map (\<lambda>x. x + real_of_int (dir s)) (pos s)\<rparr>)),
      rng_uniform = (\<lambda>r. case r of [] \<Rightarrow> (0, []) | u # us \<Rightarrow> (u, us)),
      rng_random_integers = (\<lambda>lo hi r. (lo, r))\<rparr>"

definition toy_state :: "int \<Rightarrow> chain_state" where
  "toy_state d = \<lparr>pos = [0], mom = Some [1], dir = d, n_dim = 1\<rparr>"

definition toy_world :: "int \<Rightarrow> real list \<Rightarrow> real list world" where
  "toy_world d us = \<lparr>store = [toy_state d], rng = us, warnings = []\<rparr>"

section \<open>Verified properties\<close>

text \<open>
  Claim C8. Constructing the random-length Metropolis sampler with a step-count range
  \<open>(lo, hi)\<close> such that \<open>lo \<ge> hi\<close> or \<open>lo \<le> 0\<close> fails (with an assertion error), and for
  every range with \<open>0 < lo < hi\<close> the construction succeeds and keeps the range.
\<close>

theorem RandomMetropolisHMC_init_rejects_malformed_range:
  "((lo \<ge> hi \<or> lo \<le> 0) \<longrightarrow> RandomMetropolisHMC_init (lo, hi) = Inl AssertionError) \<and>
   ((0 < lo \<and> lo < hi) \<longrightarrow> RandomMetropolisHMC_init (lo, hi) = Inr (lo, hi))"
  by (simp add: RandomMetropolisHMC_init_def)

theorem RandomMetropolisHMC_init_rejects_malformed_range_witness:
  "RandomMetropolisHMC_init (5, 3) = Inl AssertionError \<and>
   RandomMetropolisHMC_init (0, 5) = Inl AssertionError \<and>
   RandomMetropolisHMC_init (3, 5) = Inr (3, 5)"
  using RandomMetropolisHMC_init_rejects_malformed_range [of 3 5]
    RandomMetropolisHMC_init_rejects_malformed_range [of 5 0]
    RandomMetropolisHMC_init_rejects_malformed_range [of 5 3]
  by simp

subsection \<open>The Metropolis transition\<close>

lemma negate_dir_twice: "negate_dir a (negate_dir a w) = w"
  by (cases "a < length (store w)") (simp_all add: negate_dir_def list_update_beyond)

lemma integrate_steps_ok:
  "length xs = length ss \<Longrightarrow>
   (\<forall>i<length xs. integrator_step env ((store w ! p # xs) ! i) = Inr (xs ! i)) \<Longrightarrow>
   integrate_steps env ss p w =
     Inr (if xs = [] then p else length (store w) + length xs - 1, w\<lparr>store := store w @ xs\<rparr>)"
proof (induction xs arbitrary: ss p w)
  case Nil
  then show ?case by simp
next
  case (Cons x xs)
  then obtain s ss' where ss: "ss = s # ss'" by (cases ss) auto
  from Cons.prems(2) have first: "integrator_step env (store w ! p) = Inr x"
    by (auto dest: spec [of _ 0])
  let ?w = "w\<lparr>store := store w @ [x]\<rparr>"
  have rest: "\<forall>i<length xs. integrator_step env ((store ?w ! length (store w) # xs) ! i) =
      Inr (xs ! i)"
  proof (intro allI impI)
    fix i assume "i < length xs"
    with Cons.prems(2) have "integrator_step env ((store w ! p # x # xs) ! Suc i) =
        Inr ((x # xs) ! Suc i)"
      by (auto dest!: spec [of _ "Suc i"])
    then show "integrator_step env ((store ?w ! length (store w) # xs) ! i) = Inr (xs ! i)"
      by simp
  qed
  from Cons.prems(1) ss have len: "length xs = length ss'" by simp
  show ?case
    using Cons.IH [OF len rest] first ss by (auto)
qed

lemma integrate_steps_fail:
  "length xs < length ss \<Longrightarrow>
   (\<forall>i<length xs. integrator_step env ((store w ! p # xs) ! i) = Inr (xs ! i)) \<Longrightarrow>
   integrator_step env ((store w ! p # xs) ! length xs) = Inl e \<Longrightarrow>
   integrate_steps env ss p w = Inl (e, ss ! length xs, w\<lparr>store := store w @ xs\<rparr>)"
proof (induction xs arbitrary: ss p w)
  case Nil
  then obtain s ss' where ss: "ss = s # ss'" by (cases ss) auto
  with Nil show ?case by simp
next
  case (Cons x xs)
  then obtain s ss' where ss: "ss = s # ss'" by (cases ss) auto
  from Cons.prems(2) have first: "integrator_step env (store w ! p) = Inr x"
    by (auto dest: spec [of _ 0])
  let ?w = "w\<lparr>store := store w @ [x]\<rparr>"
  have rest: "\<forall>i<length xs. integrator_step env ((store ?w ! length (store w) # xs) ! i) =
      Inr (xs ! i)"
  proof (intro allI impI)
    fix i assume "i < length xs"
    with Cons.prems(2) have "integrator_step env ((store w ! p # x # xs) ! Suc i) =
        Inr ((x # xs) ! Suc i)"
      by (auto dest!: spec [of _ "Suc i"])
    then show "integrator_step env ((store ?w ! length (store w) # xs) ! i) = Inr (xs ! i)"
      by simp
  qed
  from Cons.prems(1) ss have len: "length xs < length ss'" by simp
  from Cons.prems(3) have last: "integrator_step env ((store ?w ! length (store w) # xs) ! length xs) = Inl e"
    by simp
  show ?case
    using Cons.IH [OF len rest last] first ss by auto
qed

lemma exp_minus_one_le_half: "exp (- 1 :: real) \<le> 1 / 2"
  using exp_ge_add_one_self [of "1 :: real"] by (simp add: exp_minus field_simps)

lemma one_less_twice_exp_one: "1 < exp (1 :: real) * 2"
proof -
  have "1 \<le> exp (1 :: real)" by simp
  then show ?thesis by linarith
qed

text \<open>
  The static and the random-length sampler run the same transition, with the configured
  and with the drawn number of steps.
\<close>

lemma static_calls_base:
  "StaticMetropolisHMC_sample_dynamics_transition env n state w =
     BaseMetropolisHMC_sample_dynamics_transition env state n w"
  by (simp add: StaticMetropolisHMC_sample_dynamics_transition_def)

lemma random_calls_base:
  "rng_random_integers env lo hi (rng w) = (n, r) \<Longrightarrow>
   RandomMetropolisHMC_sample_dynamics_transition env (lo, hi) state w =
     BaseMetropolisHMC_sample_dynamics_transition env state n (w\<lparr>rng := r\<rparr>)"
  by (simp add: RandomMetropolisHMC_sample_dynamics_transition_def)

text \<open>
  Claim C3. In a Metropolis transition of \<open>n \<ge> 1\<close> steps in which no step of the
  integrator fails (\<open>xs\<close> are the states the steps return, and the integrator keeps the
  direction of the state it advances): if the draw \<open>u\<close> accepts the proposal, the state
  returned is the proposal and its direction is the direction before the transition; if
  the draw rejects it, the state returned is the original object and its direction is
  the negation of the direction before the transition.
\<close>

theorem metropolis_direction:
  assumes valid: "state < length (store w)"
    and n: "1 \<le> n"
    and keeps: "\<forall>s s'. integrator_step env s = Inr s' \<longrightarrow> dir s' = dir s"
    and len: "length xs = nat n"
    and traj: "\<forall>i<length xs. integrator_step env ((store w ! state # xs) ! i) = Inr (xs ! i)"
    and res: "BaseMetropolisHMC_sample_dynamics_transition env state n w = ((state', stats), w')"
    and u: "u = fst (rng_uniform env (rng w))"
  shows "(u < metropolis_stats.accept_prob stats \<longrightarrow>
            state' = length (store w) + nat n - 1 \<and> pos (store w' ! state') = pos (last xs) \<and>
            dir (store w' ! state') = dir (store w ! state)) \<and>
         (\<not> u < metropolis_stats.accept_prob stats \<longrightarrow>
            state' = state \<and> pos (store w' ! state') = pos (store w ! state) \<and>
            dir (store w' ! state') = - dir (store w ! state))"
proof -
  from n len have ne: "xs \<noteq> []" by auto
  have dirs: "i < length xs \<Longrightarrow> dir (xs ! i) = dir (store w ! state)" for i
  proof (induction i)
    case 0
    with traj keeps show ?case by (auto dest!: spec [of _ 0])
  next
    case (Suc i)
    then have "integrator_step env (xs ! i) = Inr (xs ! Suc i)"
      using traj by (auto dest!: spec [of _ "Suc i"])
    with keeps Suc show ?case by auto
  qed
  have dlast: "dir (last xs) = dir (store w ! state)"
    using dirs [of "length xs - 1"] ne by (simp add: last_conv_nth)
  have loop: "integrate_steps env [0..<nat n] state w =
      Inr (length (store w) + length xs - 1, w\<lparr>store := store w @ xs\<rparr>)"
    using integrate_steps_ok [of xs "[0..<nat n]" env w state] len traj ne by simp
  have p: "(store w @ xs) ! (length (store w) + length xs - 1) = last xs"
    using ne by (cases xs rule: rev_cases) (auto simp add: nth_append)
  have q: "length (store w) + length xs - 1 < length (store w @ xs)"
    using ne by (cases xs) auto
  have r: "state \<noteq> length (store w) + length xs - 1"
    using valid ne by (cases xs) auto
  show ?thesis
    using res u valid dlast p q r len
    by (auto simp add: BaseMetropolisHMC_sample_dynamics_transition_def loop negate_dir_def
        Let_def nth_append split: prod.splits if_splits)
qed

theorem metropolis_direction_witness:
  "BaseMetropolisHMC_sample_dynamics_transition toy_hmc 0 1 (toy_world 1 [1 / 2]) =
     ((0, \<lparr>metropolis_stats.hamiltonian = 0, metropolis_stats.accept_prob = exp (- 1),
           metropolis_stats.n_step = 1\<rparr>),
      \<lparr>store = [toy_state (- 1), (toy_state 1)\<lparr>pos := [1], dir := - 1\<rparr>], rng = [],
       warnings = []\<rparr>) \<and>
   \<not> 1 / 2 < exp (- 1 :: real) \<and>
   dir (toy_state (- 1)) = - dir (toy_state 1) \<and>
   BaseMetropolisHMC_sample_dynamics_transition toy_hmc 0 1 (toy_world (- 1) [1 / 2]) =
     ((1, \<lparr>metropolis_stats.hamiltonian = - 1, metropolis_stats.accept_prob = 1,
           metropolis_stats.n_step = 1\<rparr>),
      \<lparr>store = [toy_state (- 1), (toy_state (- 1))\<lparr>pos := [- 1]\<rparr>], rng = [],
       warnings = []\<rparr>) \<and>
   dir ((toy_state (- 1))\<lparr>pos := [- 1]\<rparr>) = dir (toy_state (- 1))"
proof -
  have keeps: "\<forall>s s'. integrator_step toy_hmc s = Inr s' \<longrightarrow> dir s' = dir s"
    by (auto simp add: toy_hmc_def split: if_splits)
  let ?w = "toy_world 1 [1 / 2]"
  let ?xs = "[(toy_state 1)\<lparr>pos := [1]\<rparr>]"
  let ?stats = "\<lparr>metropolis_stats.hamiltonian = 0, metropolis_stats.accept_prob = exp (- 1),
                 metropolis_stats.n_step = 1\<rparr>"
  let ?w' = "\<lparr>store = [toy_state (- 1), (toy_state 1)\<lparr>pos := [1], dir := - 1\<rparr>], rng = [],
              warnings = []\<rparr> :: real list world"
  have valid: "0 < length (store ?w)" by (simp add: toy_world_def)
  have len: "length ?xs = nat 1" by simp
  have traj: "\<forall>i<length ?xs. integrator_step toy_hmc ((store ?w ! 0 # ?xs) ! i) = Inr (?xs ! i)"
    by (simp add: toy_hmc_def toy_world_def toy_state_def)
  have res: "BaseMetropolisHMC_sample_dynamics_transition toy_hmc 0 1 ?w = ((0, ?stats), ?w')"
    using exp_minus_one_le_half
    by (simp add: toy_hmc_def toy_world_def toy_state_def
        BaseMetropolisHMC_sample_dynamics_transition_def negate_dir_def)
  have u: "1 / 2 = fst (rng_uniform toy_hmc (rng ?w))"
    by (simp add: toy_hmc_def toy_world_def)
  have no: "\<not> 1 / 2 < exp (- 1 :: real)"
    using exp_minus_one_le_half by simp
  let ?v = "toy_world (- 1) [1 / 2]"
  let ?ys = "[(toy_state (- 1))\<lparr>pos := [- 1]\<rparr>]"
  let ?stats2 = "\<lparr>metropolis_stats.hamiltonian = - 1, metropolis_stats.accept_prob = 1,
                  metropolis_stats.n_step = 1\<rparr>"
  let ?v' = "\<lparr>store = [toy_state (- 1), (toy_state (- 1))\<lparr>pos := [- 1]\<rparr>], rng = [],
              warnings = []\<rparr> :: real list world"
  have valid2: "0 < length (store ?v)" by (simp add: toy_world_def)
  have len2: "length ?ys = nat 1" by simp
  have traj2: "\<forall>i<length ?ys. integrator_step toy_hmc ((store ?v ! 0 # ?ys) ! i) = Inr (?ys ! i)"
    by (simp add: toy_hmc_def toy_world_def toy_state_def)
  have res2: "BaseMetropolisHMC_sample_dynamics_transition toy_hmc 0 1 ?v = ((1, ?stats2), ?v')"
    using one_less_twice_exp_one
    by (simp add: toy_hmc_def toy_world_def toy_state_def
        BaseMetropolisHMC_sample_dynamics_transition_def negate_dir_def Let_def)
  have u2: "1 / 2 = fst (rng_uniform toy_hmc (rng ?v))"
    by (simp add: toy_hmc_def toy_world_def)
  from metropolis_direction [OF valid _ keeps len traj res u]
    metropolis_direction [OF valid2 _ keeps len2 traj2 res2 u2] no res res2
  show ?thesis by (simp add: toy_world_def toy_state_def)
qed

text \<open>
  Claim C4. If the integrator raises after \<open>k < n_step\<close> completed steps (\<open>xs\<close> are the
  \<open>k\<close> states the completed steps returned), the transition returns the original
  state object, whose attributes are unchanged, with acceptance probability 0, the
  initial energy and \<open>n_step = k\<close>; a warning is logged and no exception leaves the
  method.
\<close>

theorem metropolis_integrator_failure:
  assumes valid: "state < length (store w)"
    and k: "int (length xs) < n"
    and traj: "\<forall>i<length xs. integrator_step env ((store w ! state # xs) ! i) = Inr (xs ! i)"
    and fail: "integrator_step env ((store w ! state # xs) ! length xs) = Inl e"
  shows "BaseMetropolisHMC_sample_dynamics_transition env state n w =
           ((state,
             \<lparr>metropolis_stats.hamiltonian = system_h env (store w ! state),
                 metropolis_stats.accept_prob = 0,
              metropolis_stats.n_step = int (length xs)\<rparr>),
            w\<lparr>store := store w @ xs,
              warnings := warnings w @ [TrajectoryIntegratorError e]\<rparr>) \<and>
         (store w @ xs) ! state = store w ! state"
proof -
  from k have lt: "length xs < length [0..<nat n]" by simp
  have "integrate_steps env [0..<nat n] state w =
      Inl (e, [0..<nat n] ! length xs, w\<lparr>store := store w @ xs\<rparr>)"
    by (rule integrate_steps_fail [OF lt traj fail])
  moreover from lt have "[0..<nat n] ! length xs = length xs" by simp
  ultimately show ?thesis
    using valid
    by (simp add: BaseMetropolisHMC_sample_dynamics_transition_def nth_append)
qed

theorem metropolis_integrator_failure_witness:
  "BaseMetropolisHMC_sample_dynamics_transition toy_hmc 0 5 (toy_world 1 [1 / 2]) =
     ((0, \<lparr>metropolis_stats.hamiltonian = 0, metropolis_stats.accept_prob = 0,
         metropolis_stats.n_step = 3\<rparr>),
      \<lparr>store = [toy_state 1, (toy_state 1)\<lparr>pos := [1]\<rparr>, (toy_state 1)\<lparr>pos := [2]\<rparr>,
                (toy_state 1)\<lparr>pos := [3]\<rparr>],
       rng = [1 / 2],
       warnings = [TrajectoryIntegratorError ''step failed'']\<rparr>)"
  using metropolis_integrator_failure [of 0 "toy_world 1 [1 / 2]"
      "[(toy_state 1)\<lparr>pos := [1]\<rparr>, (toy_state 1)\<lparr>pos := [2]\<rparr>, (toy_state 1)\<lparr>pos := [3]\<rparr>]"
      5 toy_hmc "''step failed''"]
  by (simp add: toy_hmc_def toy_world_def toy_state_def All_less_Suc nth_Cons')

text \<open>
  Claim C9. A static Metropolis transition with \<open>n_step = 0\<close> returns the object it was
  given, with every attribute (position, momentum, direction) as before: the two
  negations of the direction act on the same object and cancel. Only the random number
  generator has advanced, by the one acceptance draw.
\<close>

theorem static_zero_steps:
  "state < length (store w) \<Longrightarrow>
   StaticMetropolisHMC_sample_dynamics_transition env 0 state w =
     ((state,
       \<lparr>metropolis_stats.hamiltonian = system_h env (store w ! state),
        metropolis_stats.accept_prob = min 1 (exp (system_h env (store w ! state) -
                       system_h env ((store w ! state)\<lparr>dir := - dir (store w ! state)\<rparr>))),
        metropolis_stats.n_step = 0\<rparr>),
      w\<lparr>rng := snd (rng_uniform env (rng w))\<rparr>)"
  by (simp add: StaticMetropolisHMC_sample_dynamics_transition_def
      BaseMetropolisHMC_sample_dynamics_transition_def negate_dir_def Let_def
      split: prod.splits)

theorem static_zero_steps_witness:
  "StaticMetropolisHMC_sample_dynamics_transition toy_hmc 0 0 (toy_world 1 [1 / 2]) =
     ((0, \<lparr>metropolis_stats.hamiltonian = 0, metropolis_stats.accept_prob = 1,
         metropolis_stats.n_step = 0\<rparr>), toy_world 1 [])"
  using static_zero_steps [of 0 "toy_world 1 [1 / 2]" toy_hmc]
  by (simp add: toy_hmc_def toy_world_def toy_state_def)


subsection \<open>The dynamic sampler\<close>

lemmas toy_defs = toy_hmc_def toy_world_def toy_state_def

text \<open>
  A build that does not signal termination returns three state objects, so the
  branches of the model for a name bound to \<^verbatim>\<open>None\<close> are never taken after such a build.
\<close>

lemma build_tree_states:
  "build_tree env mdh depth state sum_mom sum_weight stats h_init w =
     Inr ((False, state_i, state_o, state_p), acc) \<Longrightarrow>
   state_i \<noteq> None \<and> state_o \<noteq> None \<and> state_p \<noteq> None"
proof (induction depth arbitrary: state sum_mom sum_weight stats w state_i state_o state_p acc)
  case 0
  then show ?case
    by (auto simp add: Let_def split: sum.splits option.splits if_splits)
next
  case (Suc depth)
  show ?case
    using Suc.prems
    apply (simp add: Let_def split: sum.splits prod.splits if_splits option.splits)
    apply (auto dest!: Suc.IH)
    done
qed

lemma build_tree_n_step:
  "build_tree env mdh depth state sum_mom sum_weight stats h_init w =
     Inr (res, sum_mom', sum_weight', stats', w') \<Longrightarrow>
   tree_stats.n_step stats \<le> tree_stats.n_step stats' \<and> tree_stats.n_step stats' \<le>
       tree_stats.n_step stats + 2 ^ depth"
proof (induction depth arbitrary: state sum_mom sum_weight stats w res sum_mom' sum_weight' stats' w')
  case 0
  then show ?case
    by (auto simp add: Let_def split: sum.splits option.splits if_splits)
next
  case (Suc depth)
  show ?case
    using Suc.prems
    apply (simp add: Let_def split: sum.splits prod.splits if_splits option.splits)
    apply (auto dest!: Suc.IH)
    done
qed

text \<open>
  Claim C2, as amended. In the base case of \<^verbatim>\<open>build_tree\<close>, a leaf with
  \<open>h_leaf - h_init > max_delta_h\<close> makes the build return with the termination flag and
  the divergence flag of the statistics set and a warning logged. The step that
  produced the divergent leaf has been counted before the test: \<open>n_step\<close> is one more
  than before the call, and the leaf has been added to the running momentum, weight and
  acceptance-probability sums.
\<close>

theorem divergent_leaf:
  assumes step: "integrator_step env (store w ! state) = Inr x"
    and mom: "mom x = Some m"
    and div: "system_h env x - h_init > max_delta_h"
  shows "build_tree env max_delta_h 0 state sum_mom sum_weight stats h_init w =
           Inr ((True, Some (length (store w)), Some (length (store w)), Some (length (store w))),
                vec_add sum_mom m,
                sum_weight + exp (- system_h env x),
                stats\<lparr>tree_stats.n_step := tree_stats.n_step stats + 1,
                      tree_stats.sum_acc_prob := sum_acc_prob stats + min 1 (exp (h_init - system_h env x)),
                      tree_stats.divergent := True\<rparr>,
                w\<lparr>store := store w @ [x],
                  warnings := warnings w @ [BuildTreeDivergence (system_h env x - h_init)]\<rparr>)"
  using assms by (simp add: Let_def LogRepFloat_log_val_def)

theorem divergent_leaf_witness:
  "build_tree toy_hmc 1000 0 0 [0] 0
       \<lparr>tree_stats.n_step = 6, tree_stats.divergent = False,
        tree_stats.sum_acc_prob = 0\<rparr> (- 2000) (toy_world 1 []) =
     Inr ((True, Some 1, Some 1, Some 1), [1], exp (- 1),
          \<lparr>tree_stats.n_step = 7, tree_stats.divergent = True,
           tree_stats.sum_acc_prob = exp (- 2001)\<rparr>,
          \<lparr>store = [toy_state 1, (toy_state 1)\<lparr>pos := [1]\<rparr>], rng = [],
           warnings = [BuildTreeDivergence 2001]\<rparr>)"
proof -
  let ?x = "(toy_state 1)\<lparr>pos := [1]\<rparr>"
  have step: "integrator_step toy_hmc (store (toy_world 1 []) ! 0) = Inr ?x"
    by (simp add: toy_defs)
  have mom: "mom ?x = Some [1]" by (simp add: toy_defs)
  have div: "system_h toy_hmc ?x - (- 2000) > 1000" by (simp add: toy_defs)
  from divergent_leaf [OF step mom div, of "[0]" 0
      "\<lparr>tree_stats.n_step = 6, tree_stats.divergent = False, tree_stats.sum_acc_prob = 0\<rparr>"]
  show ?thesis by (simp add: toy_defs vec_add_def)
qed

text \<open>
  The claim as stated says the divergent step is not counted. On a first leaf that
  diverges (no step completed before it), \<open>n_step\<close> is 1, not 0.
\<close>

theorem divergent_leaf_counted:
  "build_tree toy_hmc (1 / 2) 0 0 [0] 0
       \<lparr>tree_stats.n_step = 0, tree_stats.divergent = False,
        tree_stats.sum_acc_prob = 0\<rparr> 0 (toy_world 1 []) =
     Inr ((True, Some 1, Some 1, Some 1), [1], exp (- 1),
          \<lparr>tree_stats.n_step = 1, tree_stats.divergent = True, tree_stats.sum_acc_prob = exp (- 1)\<rparr>,
          \<lparr>store = [toy_state 1, (toy_state 1)\<lparr>pos := [1]\<rparr>], rng = [],
           warnings = [BuildTreeDivergence 1]\<rparr>)"
  by (simp add: toy_defs vec_add_def LogRepFloat_log_val_def Let_def)

text \<open>
  Claim C5, as amended. In the recursive case of \<^verbatim>\<open>build_tree\<close>: if the inner
  half-subtree signals termination, the call returns \<open>(True, None, None, None)\<close> with
  the statistics and the world exactly as the inner build left them (the outer
  half-subtree is not built); if the inner build does not signal termination and the
  outer one does, the call again returns \<open>(True, None, None, None)\<close>, with no proposal;
  if neither signals termination, the proposal is the outer half-subtree's proposal
  when the uniform draw \<open>u\<close> is below \<open>weight_outer / (weight_outer + weight_inner)\<close> and
  the inner half-subtree's proposal otherwise, the weights being those the two builds
  accumulated from zero.
\<close>

theorem build_tree_recursive_case:
  "(build_tree env max_delta_h depth state (replicate (n_dim (store w ! state)) 0) 0 stats h_init w =
      Inr ((True, state_i, state_e, state_pi), sum_mom_i, sum_weight_i, stats_i, w_i) \<longrightarrow>
    build_tree env max_delta_h (Suc depth) state sum_mom sum_weight stats h_init w =
      Inr ((True, None, None, None), sum_mom, sum_weight, stats_i, w_i)) \<and>
   (build_tree env max_delta_h depth state (replicate (n_dim (store w ! state)) 0) 0 stats h_init w =
      Inr ((False, state_i, Some edge, state_pi), sum_mom_i, sum_weight_i, stats_i, w_i) \<and>
    build_tree env max_delta_h depth edge (replicate (n_dim (store w ! state)) 0) 0 stats_i h_init w_i =
      Inr ((True, unused, state_o, state_po), sum_mom_o, sum_weight_o, stats_o, w_o) \<longrightarrow>
    build_tree env max_delta_h (Suc depth) state sum_mom sum_weight stats h_init w =
      Inr ((True, None, None, None), sum_mom, sum_weight, stats_o, w_o)) \<and>
   (build_tree env max_delta_h depth state (replicate (n_dim (store w ! state)) 0) 0 stats h_init w =
      Inr ((False, state_i, Some edge, state_pi), sum_mom_i, sum_weight_i, stats_i, w_i) \<and>
    build_tree env max_delta_h depth edge (replicate (n_dim (store w ! state)) 0) 0 stats_i h_init w_i =
      Inr ((False, unused, state_o, state_po), sum_mom_o, sum_weight_o, stats_o, w_o) \<and>
    rng_uniform env (rng w_o) = (u, r) \<and>
    termination_criterion env state_i state_o (vec_add sum_mom_i sum_mom_o) (w_o\<lparr>rng := r\<rparr>) =
      Inr terminate_s \<longrightarrow>
    build_tree env max_delta_h (Suc depth) state sum_mom sum_weight stats h_init w =
      Inr ((terminate_s, state_i, state_o,
            if u < sum_weight_o / (sum_weight_o + sum_weight_i) then state_po else state_pi),
           vec_add sum_mom (vec_add sum_mom_i sum_mom_o),
           sum_weight + (sum_weight_i + sum_weight_o), stats_o, w_o\<lparr>rng := r\<rparr>))"
  by (simp add: Let_def add.commute)

lemma exp_share: "1 / 2 < exp 2 / (exp 2 + exp (1 :: real))"
proof -
  have "exp (1 :: real) < exp 2" by simp
  moreover have "0 < exp 2 + exp (1 :: real)" by (simp add: add_pos_pos)
  ultimately show ?thesis by (simp add: field_simps)
qed

theorem build_tree_recursive_case_witness:
  "build_tree toy_hmc 1000 (Suc 0) 0 [0] 0
       \<lparr>tree_stats.n_step = 0, tree_stats.divergent = False, tree_stats.sum_acc_prob = 0\<rparr> 0
       (toy_world (- 1) [1 / 2]) =
     Inr ((False, Some 1, Some 2, Some 2), [2], exp 1 + exp 2,
          \<lparr>tree_stats.n_step = 2, tree_stats.divergent = False, tree_stats.sum_acc_prob = 2\<rparr>,
          \<lparr>store = [toy_state (- 1), (toy_state (- 1))\<lparr>pos := [- 1]\<rparr>,
                    (toy_state (- 1))\<lparr>pos := [- 2]\<rparr>],
           rng = [], warnings = []\<rparr>) \<and>
   build_tree toy_hmc (1 / 2) (Suc 0) 0 [0] 0
       \<lparr>tree_stats.n_step = 0, tree_stats.divergent = False, tree_stats.sum_acc_prob = 0\<rparr> 0
       (toy_world 1 [1 / 2]) =
     Inr ((True, None, None, None), [0], 0,
          \<lparr>tree_stats.n_step = 1, tree_stats.divergent = True,
           tree_stats.sum_acc_prob = exp (- 1)\<rparr>,
          \<lparr>store = [toy_state 1, (toy_state 1)\<lparr>pos := [1]\<rparr>], rng = [1 / 2],
           warnings = [BuildTreeDivergence 1]\<rparr>)"
proof -
  let ?s0 = "\<lparr>tree_stats.n_step = 0, tree_stats.divergent = False, tree_stats.sum_acc_prob = 0\<rparr>"
  let ?s1 = "\<lparr>tree_stats.n_step = 1, tree_stats.divergent = False, tree_stats.sum_acc_prob = 1\<rparr>"
  let ?s2 = "\<lparr>tree_stats.n_step = 2, tree_stats.divergent = False, tree_stats.sum_acc_prob = 2\<rparr>"
  let ?w = "toy_world (- 1) [1 / 2]"
  let ?w1 = "\<lparr>store = [toy_state (- 1), (toy_state (- 1))\<lparr>pos := [- 1]\<rparr>], rng = [1 / 2],
               warnings = []\<rparr> :: real list world"
  let ?w2 = "\<lparr>store = [toy_state (- 1), (toy_state (- 1))\<lparr>pos := [- 1]\<rparr>,
                        (toy_state (- 1))\<lparr>pos := [- 2]\<rparr>], rng = [1 / 2],
               warnings = []\<rparr> :: real list world"
  have inner: "build_tree toy_hmc 1000 0 0 (replicate (n_dim (store ?w ! 0)) 0) 0 ?s0 0 ?w =
      Inr ((False, Some 1, Some 1, Some 1), [1], exp 1, ?s1, ?w1)"
    by (simp add: toy_defs vec_add_def LogRepFloat_log_val_def Let_def)
  have outer: "build_tree toy_hmc 1000 0 1 (replicate (n_dim (store ?w ! 0)) 0) 0 ?s1 0 ?w1 =
      Inr ((False, Some 2, Some 2, Some 2), [1], exp 2, ?s2, ?w2)"
    by (simp add: toy_defs vec_add_def LogRepFloat_log_val_def Let_def)
  have draw: "rng_uniform toy_hmc (rng ?w2) = (1 / 2, [])"
    by (simp add: toy_defs)
  have crit: "termination_criterion toy_hmc (Some 1) (Some 2) (vec_add [1] [1]) (?w2\<lparr>rng := []\<rparr>) =
      Inr False"
    by (simp add: toy_defs termination_criterion_def vec_add_def dot_def)
  have "build_tree toy_hmc 1000 (Suc 0) 0 [0] 0 ?s0 0 ?w =
      Inr ((False, Some 1, Some 2,
            if (1 :: real) / 2 < exp 2 / (exp 2 + exp 1) then Some 2 else Some 1),
           vec_add [0] (vec_add [1] [1]), 0 + (exp 1 + exp 2), ?s2, ?w2\<lparr>rng := []\<rparr>)"
    by (rule build_tree_recursive_case [THEN conjunct2, THEN conjunct2, THEN mp,
          OF conjI [OF inner conjI [OF outer conjI [OF draw crit]]]])
  with exp_share have first: "build_tree toy_hmc 1000 (Suc 0) 0 [0] 0 ?s0 0 ?w =
      Inr ((False, Some 1, Some 2, Some 2), [2], exp 1 + exp 2, ?s2, ?w2\<lparr>rng := []\<rparr>)"
    by (simp add: vec_add_def)
  let ?v = "toy_world 1 [1 / 2]"
  let ?d1 = "\<lparr>tree_stats.n_step = 1, tree_stats.divergent = True,
              tree_stats.sum_acc_prob = exp (- 1)\<rparr>"
  let ?v1 = "\<lparr>store = [toy_state 1, (toy_state 1)\<lparr>pos := [1]\<rparr>], rng = [1 / 2],
               warnings = [BuildTreeDivergence 1]\<rparr> :: real list world"
  have diverging: "build_tree toy_hmc (1 / 2) 0 0 (replicate (n_dim (store ?v ! 0)) 0) 0 ?s0 0 ?v =
      Inr ((True, Some 1, Some 1, Some 1), [1], exp (- 1), ?d1, ?v1)"
    by (simp add: toy_defs vec_add_def LogRepFloat_log_val_def Let_def)
  have second: "build_tree toy_hmc (1 / 2) (Suc 0) 0 [0] 0 ?s0 0 ?v =
      Inr ((True, None, None, None), [0], 0, ?d1, ?v1)"
    by (rule build_tree_recursive_case [THEN conjunct1, THEN mp, OF diverging])
  from first second show ?thesis by simp
qed

text \<open>
  The claim as stated gives the subtree a proposal taken from one of the two halves
  whenever the inner half does not signal termination. Here the inner leaf is accepted
  (proposal at address 1), the outer leaf diverges (its proposal is at address 2), and
  the subtree returns no proposal at all.
\<close>

theorem build_tree_outer_divergence:
  "build_tree toy_hmc (3 / 2) 0 0 [0] 0
       \<lparr>tree_stats.n_step = 0, tree_stats.divergent = False,
        tree_stats.sum_acc_prob = 0\<rparr> 0 (toy_world 1 [1 / 2]) =
     Inr ((False, Some 1, Some 1, Some 1), [1], exp (- 1),
          \<lparr>tree_stats.n_step = 1, tree_stats.divergent = False,
           tree_stats.sum_acc_prob = exp (- 1)\<rparr>,
          \<lparr>store = [toy_state 1, (toy_state 1)\<lparr>pos := [1]\<rparr>], rng = [1 / 2], warnings = []\<rparr>) \<and>
   build_tree toy_hmc (3 / 2) 0 1 [0] 0
       \<lparr>tree_stats.n_step = 1, tree_stats.divergent = False, tree_stats.sum_acc_prob = exp (- 1)\<rparr> 0
       \<lparr>store = [toy_state 1, (toy_state 1)\<lparr>pos := [1]\<rparr>], rng = [1 / 2], warnings = []\<rparr> =
     Inr ((True, Some 2, Some 2, Some 2), [1], exp (- 2),
          \<lparr>tree_stats.n_step = 2, tree_stats.divergent = True,
           tree_stats.sum_acc_prob = exp (- 1) + exp (- 2)\<rparr>,
          \<lparr>store = [toy_state 1, (toy_state 1)\<lparr>pos := [1]\<rparr>, (toy_state 1)\<lparr>pos := [2]\<rparr>],
           rng = [1 / 2], warnings = [BuildTreeDivergence 2]\<rparr>) \<and>
   build_tree toy_hmc (3 / 2) (Suc 0) 0 [0] 0
       \<lparr>tree_stats.n_step = 0, tree_stats.divergent = False,
        tree_stats.sum_acc_prob = 0\<rparr> 0 (toy_world 1 [1 / 2]) =
     Inr ((True, None, None, None), [0], 0,
          \<lparr>tree_stats.n_step = 2, tree_stats.divergent = True,
           tree_stats.sum_acc_prob = exp (- 1) + exp (- 2)\<rparr>,
          \<lparr>store = [toy_state 1, (toy_state 1)\<lparr>pos := [1]\<rparr>, (toy_state 1)\<lparr>pos := [2]\<rparr>],
           rng = [1 / 2], warnings = [BuildTreeDivergence 2]\<rparr>)"
  by (simp add: toy_defs vec_add_def LogRepFloat_log_val_def Let_def)

text \<open>
  The doubling loop, started at depth \<open>k\<close> with at most \<open>2 ^ k - 1\<close> steps counted, leaves
  its loop variable at some \<open>d\<close> below the end of the range, with at most
  \<open>2 ^ (d + 1) - 1\<close> steps counted.
\<close>

lemma direction_eq_one:
  "((if c then (1::int) else 0) = 1) = c"
  "(2 * (if c then 1 else 0) - (1::int) = 1) = c"
  by auto

lemma doubling_loop_bounds:
  "doubling_loop env mdh h_init state [k..<m] depth
       (state_n, state_l, state_r, sum_mom, sum_weight, stats, w) =
     Inr (depth', (state_n', state_l', state_r', sum_mom', sum_weight', stats', w')) \<Longrightarrow>
   k \<le> m \<Longrightarrow>
   tree_stats.n_step stats \<le> 2 ^ k - 1 \<Longrightarrow>
   (depth = None \<and> k = 0) \<or> (0 < k \<and> depth = Some (k - 1)) \<Longrightarrow>
   (depth' = None \<and> m = 0) \<or>
   (\<exists>d. depth' = Some d \<and> d < m \<and> tree_stats.n_step stats' \<le> 2 ^ (d + 1) - 1)"
proof (induction "m - k" arbitrary: k depth state_n state_l state_r sum_mom sum_weight stats w)
  case 0
  then have "k = m" by simp
  with 0 show ?case by (cases k) auto
next
  case (Suc j)
  then have lt: "k < m" by simp
  then have upt: "[k..<m] = k # [Suc k..<m]" by (simp add: upt_conv_Cons)
  obtain u r where ur: "rng_uniform env (rng w) = (u, r)" by (cases "rng_uniform env (rng w)")
  let ?w0 = "w\<lparr>rng := r\<rparr>"
  let ?edge = "if u < 1 / 2 then state_r else state_l"
  from Suc.prems(1) upt ur obtain edge where edge: "?edge = Some edge"
    by (cases ?edge) (auto simp add: Let_def direction_eq_one)
  let ?bt = "build_tree env mdh k edge (replicate (n_dim (store ?w0 ! state)) 0) 0 stats h_init ?w0"
  from Suc.prems(1) upt ur edge obtain ts a so sp sm sw st1 w1
    where bt: "?bt = Inr ((ts, a, so, sp), sm, sw, st1, w1)"
    by (cases ?bt) (auto simp add: Let_def direction_eq_one split: if_splits)
  from build_tree_n_step [OF bt] Suc.prems(3)
  have n1: "tree_stats.n_step st1 \<le> 2 ^ (k + 1) - 1" by simp
  show ?case
  proof (cases ts)
    case True
    with Suc.prems(1) upt ur edge bt n1 lt show ?thesis
      by (auto simp add: Let_def direction_eq_one split: if_splits)
  next
    case False
    obtain u2 r2 where ur2: "rng_uniform env (rng w1) = (u2, r2)"
      by (cases "rng_uniform env (rng w1)")
    let ?sl = "if u < 1 / 2 then state_l else so"
    let ?sr = "if u < 1 / 2 then so else state_r"
    let ?tc = "termination_criterion env ?sl ?sr (vec_add sum_mom sm) (w1\<lparr>rng := r2\<rparr>)"
    from Suc.prems(1) upt ur edge bt False ur2 obtain stop where tc: "?tc = Inr stop"
      by (cases ?tc) (auto simp add: Let_def direction_eq_one split: if_splits)
    show ?thesis
    proof (cases stop)
      case True
      with Suc.prems(1) upt ur edge bt False ur2 tc n1 lt show ?thesis
        by (auto simp add: Let_def direction_eq_one split: if_splits)
    next
      case nstop: False
      have rec: "doubling_loop env mdh h_init state [Suc k..<m] (Some k)
          (if u2 < sw / sum_weight then sp else state_n, ?sl, ?sr, vec_add sum_mom sm,
           sum_weight + sw, st1, w1\<lparr>rng := r2\<rparr>) =
          Inr (depth', (state_n', state_l', state_r', sum_mom', sum_weight', stats', w'))"
        using Suc.prems(1) upt ur edge bt False ur2 tc nstop
        by (auto simp add: Let_def direction_eq_one split: if_splits)
      have j: "j = m - Suc k" using Suc.hyps(2) by simp
      from Suc.hyps(1) [OF j rec] lt n1 show ?thesis by simp
    qed
  qed
qed

text \<open>
  With an integrator that gives a state with a momentum for every state with a momentum
  it advances, no branch of the model for a name bound to \<^verbatim>\<open>None\<close> or for a missing
  momentum is taken: a build, the doubling loop and, for \<open>max_tree_depth \<ge> 1\<close>, the whole
  transition return.
\<close>

lemma with_momentum_append:
  "with_momentum w s \<Longrightarrow> store w' = store w @ ys \<Longrightarrow> with_momentum w' s"
  by (auto simp add: with_momentum_def nth_append split: option.splits)

lemma termination_criterion_returns:
  "state_1 \<noteq> None \<Longrightarrow> state_2 \<noteq> None \<Longrightarrow>
   \<exists>stop. termination_criterion env state_1 state_2 sum_mom w = Inr stop"
  by (auto simp add: termination_criterion_def)

lemma build_tree_store:
  "build_tree env mdh depth state sum_mom sum_weight stats h_init w =
     Inr ((t, state_i, state_o, state_p), sum_mom', sum_weight', stats', w') \<Longrightarrow>
   (\<exists>ys. store w' = store w @ ys) \<and> (\<not> t \<longrightarrow> with_momentum w' state_o)"
proof (induction depth arbitrary: state sum_mom sum_weight stats w t state_i state_o state_p
    sum_mom' sum_weight' stats' w')
  case 0
  then show ?case
    by (auto simp add: Let_def with_momentum_def split: sum.splits option.splits if_splits)
next
  case (Suc depth)
  let ?z = "replicate (n_dim (store w ! state)) 0"
  from Suc.prems obtain ti si s1 pi mi wi st1 w1 where
    inner: "build_tree env mdh depth state ?z 0 stats h_init w =
      Inr ((ti, si, s1, pi), mi, wi, st1, w1)"
    by (auto simp add: Let_def split: sum.splits)
  from Suc.IH [OF inner] obtain ys1 where ys1: "store w1 = store w @ ys1" by auto
  show ?case
  proof (cases ti)
    case True
    with Suc.prems inner ys1 show ?thesis by (auto simp add: Let_def)
  next
    case False
    with Suc.prems inner obtain edge where s1: "s1 = Some edge"
      by (cases s1) (auto simp add: Let_def)
    from Suc.prems inner False s1 obtain t_o un so po mo wo st2 w2 where
      outer: "build_tree env mdh depth edge ?z 0 st1 h_init w1 =
        Inr ((t_o, un, so, po), mo, wo, st2, w2)"
      by (auto simp add: Let_def split: sum.splits)
    from Suc.IH [OF outer] obtain ys2 where ys2: "store w2 = store w1 @ ys2"
      and live: "\<not> t_o \<longrightarrow> with_momentum w2 so" by auto
    show ?thesis
    proof (cases t_o)
      case True
      with Suc.prems inner False s1 outer ys1 ys2 show ?thesis by (auto simp add: Let_def)
    next
      case nt: False
      with Suc.prems inner False s1 outer ys1 ys2 live show ?thesis
        by (auto simp add: Let_def with_momentum_def split: prod.splits sum.splits option.splits)
    qed
  qed
qed

lemma build_tree_returns:
  assumes keeps_mom:
    "\<forall>s x. mom s \<noteq> None \<longrightarrow> integrator_step env s = Inr x \<longrightarrow> mom x \<noteq> None"
  shows "mom (store w ! state) \<noteq> None \<Longrightarrow>
         \<exists>r. build_tree env mdh depth state sum_mom sum_weight stats h_init w = Inr r"
proof (induction depth arbitrary: state sum_mom sum_weight stats w)
  case 0
  show ?case
  proof (cases "integrator_step env (store w ! state)")
    case (Inl e)
    then show ?thesis by auto
  next
    case (Inr x)
    with keeps_mom 0 obtain m where "mom x = Some m" by auto
    with Inr show ?thesis by (auto simp add: Let_def)
  qed
next
  case (Suc depth)
  let ?z = "replicate (n_dim (store w ! state)) 0"
  from Suc.IH [OF Suc.prems, of ?z 0 stats] obtain ti si s1 pi mi wi st1 w1 where
    inner: "build_tree env mdh depth state ?z 0 stats h_init w =
      Inr ((ti, si, s1, pi), mi, wi, st1, w1)"
    by (metis prod_cases4)
  show ?case
  proof (cases ti)
    case True
    with inner show ?thesis by (auto simp add: Let_def)
  next
    case False
    with inner build_tree_states [of env mdh depth state ?z 0 stats h_init w si s1 pi]
    obtain edge a where s1: "s1 = Some edge" and si: "si = Some a" by auto
    from build_tree_store [OF inner] False s1 have "mom (store w1 ! edge) \<noteq> None"
      by (simp add: with_momentum_def)
    from Suc.IH [OF this, of ?z 0 st1] obtain t_o un so po mo wo st2 w2 where
      outer: "build_tree env mdh depth edge ?z 0 st1 h_init w1 =
        Inr ((t_o, un, so, po), mo, wo, st2, w2)"
      by (metis prod_cases4)
    show ?thesis
    proof (cases t_o)
      case True
      with inner False s1 outer show ?thesis by (auto simp add: Let_def)
    next
      case nt: False
      with outer build_tree_states [of env mdh depth edge ?z 0 st1 h_init w1 un so po]
      obtain b where so: "so = Some b" by auto
      from inner False s1 si outer nt so show ?thesis
        by (auto simp add: Let_def termination_criterion_def split: prod.splits)
    qed
  qed
qed

lemma doubling_loop_returns:
  assumes keeps_mom:
    "\<forall>s x. mom s \<noteq> None \<longrightarrow> integrator_step env s = Inr x \<longrightarrow> mom x \<noteq> None"
  shows "state_n \<noteq> None \<Longrightarrow> with_momentum w state_l \<Longrightarrow> with_momentum w state_r \<Longrightarrow>
         \<exists>depth' sn sl sr sm sw st w'.
           doubling_loop env mdh h_init state ds depth
             (state_n, state_l, state_r, sum_mom, sum_weight, stats, w) =
           Inr (depth', (Some sn, sl, sr, sm, sw, st, w')) \<and>
           (depth' = None \<longrightarrow> ds = [] \<and> depth = None)"
proof (induction ds arbitrary: depth state_n state_l state_r sum_mom sum_weight stats w)
  case Nil
  then show ?case by auto
next
  case (Cons d ds)
  obtain u r where ur: "rng_uniform env (rng w) = (u, r)" by (cases "rng_uniform env (rng w)")
  let ?w0 = "w\<lparr>rng := r\<rparr>"
  from Cons.prems obtain edge where edge: "(if u < 1 / 2 then state_r else state_l) = Some edge"
    and em: "mom (store ?w0 ! edge) \<noteq> None"
    by (cases "u < 1 / 2") (auto simp add: with_momentum_def split: option.splits)
  let ?z = "replicate (n_dim (store ?w0 ! state)) 0"
  from build_tree_returns [OF keeps_mom em, of mdh d ?z 0 stats h_init]
  obtain ts un se sp sm sw st1 w1 where
    bt: "build_tree env mdh d edge ?z 0 stats h_init ?w0 = Inr ((ts, un, se, sp), sm, sw, st1, w1)"
    by (metis prod_cases4)
  from build_tree_store [OF bt] obtain ys where ys: "store w1 = store w @ ys"
    and live: "\<not> ts \<longrightarrow> with_momentum w1 se" by auto
  show ?case
  proof (cases ts)
    case True
    with Cons.prems ur edge bt show ?thesis
      by (auto simp add: Let_def direction_eq_one)
  next
    case False
    with bt build_tree_states [of env mdh d edge ?z 0 stats h_init ?w0 un se sp]
    obtain p where sp: "sp = Some p" by auto
    obtain u2 r2 where ur2: "rng_uniform env (rng w1) = (u2, r2)"
      by (cases "rng_uniform env (rng w1)")
    let ?w2 = "w1\<lparr>rng := r2\<rparr>"
    let ?sl = "if u < 1 / 2 then state_l else se"
    let ?sr = "if u < 1 / 2 then se else state_r"
    let ?sn = "if u2 < sw / sum_weight then sp else state_n"
    have st2: "store ?w2 = store w @ ys" using ys by simp
    have st1: "store ?w2 = store w1 @ []" by simp
    from Cons.prems(1) sp have sn: "?sn \<noteq> None" by auto
    from False live have lse: "with_momentum ?w2 se"
      by (auto intro: with_momentum_append [OF _ st1])
    from Cons.prems(2) have ll: "with_momentum ?w2 state_l"
      by (rule with_momentum_append [OF _ st2])
    from Cons.prems(3) have lr: "with_momentum ?w2 state_r"
      by (rule with_momentum_append [OF _ st2])
    from lse ll have live_l: "with_momentum ?w2 ?sl" by simp
    from lse lr have live_r: "with_momentum ?w2 ?sr" by simp
    from live_l live_r have "?sl \<noteq> None" "?sr \<noteq> None"
      by (auto simp add: with_momentum_def split: if_splits option.splits)
    from termination_criterion_returns [OF this] obtain stop where tc:
      "termination_criterion env ?sl ?sr (vec_add sum_mom sm) ?w2 = Inr stop"
      by blast
    show ?thesis
    proof (cases stop)
      case True
      with Cons.prems ur edge bt False ur2 tc sn show ?thesis
        by (auto simp add: Let_def direction_eq_one)
    next
      case nstop: False
      from Cons.IH [OF sn live_l live_r, of "Some d" "vec_add sum_mom sm" "sum_weight + sw" st1]
      obtain depth' sn sl sr sm' sw' st w' where
        "doubling_loop env mdh h_init state ds (Some d)
           (?sn, ?sl, ?sr, vec_add sum_mom sm, sum_weight + sw, st1, ?w2) =
         Inr (depth', (Some sn, sl, sr, sm', sw', st, w'))" and "depth' \<noteq> None"
        by auto
      with ur edge bt False ur2 tc nstop show ?thesis
        by (auto simp add: Let_def direction_eq_one)
    qed
  qed
qed

lemma dynamic_transition_returns:
  assumes keeps_mom:
    "\<forall>s x. mom s \<noteq> None \<longrightarrow> integrator_step env s = Inr x \<longrightarrow> mom x \<noteq> None"
    and m: "mom (store w ! state) \<noteq> None"
    and d: "1 \<le> max_tree_depth"
  shows "\<exists>r. DynamicMultinomialHMC_sample_dynamics_transition env max_tree_depth max_delta_h
           state w = Inr r"
proof -
  from m obtain p where p: "mom (store w ! state) = Some p" by auto
  from d have ne: "[0..<nat max_tree_depth] \<noteq> []" by simp
  let ?w1 = "w\<lparr>store := store w @ [(store w ! state)\<lparr>dir := - 1\<rparr>, (store w ! state)\<lparr>dir := 1\<rparr>]\<rparr>"
  have l: "with_momentum ?w1 (Some (length (store w)))"
    and r: "with_momentum ?w1 (Some (length (store w) + 1))"
    using m by (simp_all add: with_momentum_def nth_append)
  from doubling_loop_returns [OF keeps_mom _ l r, of "Some state" max_delta_h
      "system_h env (store w ! state)" state
      "[0..<nat max_tree_depth]" None p "LogRepFloat_log_val (- system_h env (store w ! state))"
      "\<lparr>tree_stats.n_step = 0, tree_stats.divergent = False, tree_stats.sum_acc_prob = 0\<rparr>"]
    ne
  obtain depth' sn sl sr sm sw st w' where
    "doubling_loop env max_delta_h (system_h env (store w ! state)) state
       [0..<nat max_tree_depth] None
       (Some state, Some (length (store w)), Some (length (store w) + 1), p,
        LogRepFloat_log_val (- system_h env (store w ! state)),
        \<lparr>tree_stats.n_step = 0, tree_stats.divergent = False, tree_stats.sum_acc_prob = 0\<rparr>, ?w1) =
     Inr (depth', (Some sn, sl, sr, sm, sw, st, w'))" and "depth' \<noteq> None"
    by auto
  with p show ?thesis
    by (auto simp add: DynamicMultinomialHMC_sample_dynamics_transition_def Let_def)
qed

text \<open>
  Claim C7. A dynamic transition that returns has run the doubling loop for the depths
  \<open>0, \<dots>, tree_depth\<close> only, with \<open>tree_depth < max_tree_depth\<close>; so the recorded tree
  depth does not exceed \<open>max_tree_depth\<close>, and the number of integrator steps is at most
  \<open>2 ^ (tree_depth + 1) - 1\<close>, the size of \<open>tree_depth + 1\<close> doublings. And the transition
  does return whenever \<open>max_tree_depth \<ge> 1\<close>, the state has a momentum and the integrator
  gives states with a momentum.
\<close>

theorem tree_depth_bounded:
  "(DynamicMultinomialHMC_sample_dynamics_transition env max_tree_depth max_delta_h state w =
      Inr ((state', stats), w') \<longrightarrow>
    int (dynamic_stats.tree_depth stats) < max_tree_depth \<and>
    tree_stats.n_step stats \<le> 2 ^ (dynamic_stats.tree_depth stats + 1) - 1 \<and>
    tree_stats.n_step stats \<le> 2 ^ nat max_tree_depth - 1) \<and>
   ((\<forall>s x. mom s \<noteq> None \<longrightarrow> integrator_step env s = Inr x \<longrightarrow> mom x \<noteq> None) \<and>
    mom (store w ! state) \<noteq> None \<and> 1 \<le> max_tree_depth \<longrightarrow>
    (\<exists>r. DynamicMultinomialHMC_sample_dynamics_transition env max_tree_depth max_delta_h
            state w = Inr r))"
proof (intro conjI impI)
  assume res: "DynamicMultinomialHMC_sample_dynamics_transition env max_tree_depth max_delta_h
      state w = Inr ((state', stats), w')"
  from res obtain m where m: "mom (store w ! state) = Some m"
    by (cases "mom (store w ! state)")
      (auto simp add: DynamicMultinomialHMC_sample_dynamics_transition_def Let_def)
  let ?w1 = "w\<lparr>store := store w @ [(store w ! state)\<lparr>dir := - 1\<rparr>, (store w ! state)\<lparr>dir := 1\<rparr>]\<rparr>"
  let ?loop = "doubling_loop env max_delta_h (system_h env (store w ! state)) state
      [0..<nat max_tree_depth] None
      (Some state, Some (length (store w)), Some (length (store w) + 1), m,
       LogRepFloat_log_val (- system_h env (store w ! state)),
       \<lparr>tree_stats.n_step = 0, tree_stats.divergent = False, tree_stats.sum_acc_prob = 0\<rparr>, ?w1)"
  from res m obtain depth sn sl sr sm sw st w2
    where loop: "?loop = Inr (depth, (sn, sl, sr, sm, sw, st, w2))"
    by (cases ?loop)
      (auto simp add: DynamicMultinomialHMC_sample_dynamics_transition_def Let_def)
  from res m loop obtain d where d: "depth = Some d"
    and stats: "tree_stats.n_step stats = tree_stats.n_step st"
      "dynamic_stats.tree_depth stats = d"
    by (auto simp add: DynamicMultinomialHMC_sample_dynamics_transition_def Let_def
        tree_stats.defs split: option.splits)
  from doubling_loop_bounds [OF loop] d
  have b: "d < nat max_tree_depth" "tree_stats.n_step st \<le> 2 ^ (d + 1) - 1" by auto
  from b(1) have "(2::int) ^ (d + 1) \<le> 2 ^ nat max_tree_depth"
    by (intro power_increasing) auto
  with b stats show "int (dynamic_stats.tree_depth stats) < max_tree_depth"
    "tree_stats.n_step stats \<le> 2 ^ (dynamic_stats.tree_depth stats + 1) - 1"
    "tree_stats.n_step stats \<le> 2 ^ nat max_tree_depth - 1"
    by auto
next
  assume "(\<forall>s x. mom s \<noteq> None \<longrightarrow> integrator_step env s = Inr x \<longrightarrow> mom x \<noteq> None) \<and>
    mom (store w ! state) \<noteq> None \<and> 1 \<le> max_tree_depth"
  then show "\<exists>r. DynamicMultinomialHMC_sample_dynamics_transition env max_tree_depth
      max_delta_h state w = Inr r"
    using dynamic_transition_returns [of env w state max_tree_depth max_delta_h] by blast
qed

lemma toy_dynamic_depth_one:
  "DynamicMultinomialHMC_sample_dynamics_transition toy_hmc 1 1000 0 (toy_world 1 []) =
     Inr ((3, \<lparr>tree_stats.n_step = 1, tree_stats.divergent = False,
               tree_stats.sum_acc_prob = exp (- 1),
               dynamic_stats.accept_prob = exp (- 1), dynamic_stats.hamiltonian = 1,
               dynamic_stats.tree_depth = 0\<rparr>),
          \<lparr>store = [toy_state 1, (toy_state 1)\<lparr>dir := - 1\<rparr>, toy_state 1,
                    (toy_state 1)\<lparr>pos := [1]\<rparr>],
           rng = [], warnings = []\<rparr>)"
  by (simp add: DynamicMultinomialHMC_sample_dynamics_transition_def toy_defs vec_add_def dot_def
      LogRepFloat_log_val_def termination_criterion_def Let_def tree_stats.defs
      direction_eq_one)

theorem tree_depth_bounded_witness:
  "DynamicMultinomialHMC_sample_dynamics_transition toy_hmc 1 1000 0 (toy_world 1 []) =
     Inr ((3, \<lparr>tree_stats.n_step = 1, tree_stats.divergent = False,
               tree_stats.sum_acc_prob = exp (- 1),
               dynamic_stats.accept_prob = exp (- 1), dynamic_stats.hamiltonian = 1,
               dynamic_stats.tree_depth = 0\<rparr>),
          \<lparr>store = [toy_state 1, (toy_state 1)\<lparr>dir := - 1\<rparr>, toy_state 1,
                    (toy_state 1)\<lparr>pos := [1]\<rparr>],
           rng = [], warnings = []\<rparr>) \<and>
   int 0 < 1 \<and> (1 :: int) \<le> 2 ^ (0 + 1) - 1 \<and>
   (\<exists>r. DynamicMultinomialHMC_sample_dynamics_transition toy_hmc 5 1000 0 (toy_world 1 []) =
      Inr r)"
proof -
  have keeps_mom:
    "\<forall>s x. mom s \<noteq> None \<longrightarrow> integrator_step toy_hmc s = Inr x \<longrightarrow> mom x \<noteq> None"
    by (auto simp add: toy_hmc_def split: if_splits)
  have m: "mom (store (toy_world 1 []) ! 0) \<noteq> None" by (simp add: toy_defs)
  have d: "(1 :: int) \<le> 5" by simp
  from tree_depth_bounded [THEN conjunct1, THEN mp, OF toy_dynamic_depth_one]
    tree_depth_bounded [THEN conjunct2, THEN mp, OF conjI [OF keeps_mom conjI [OF m d]],
      of 1000]
    toy_dynamic_depth_one
  show ?thesis by simp
qed

text \<open>
  Claim C10. A dynamic transition returns only if \<open>max_tree_depth \<ge> 1\<close>. With
  \<open>max_tree_depth = 0\<close> (and a state that has a momentum) the loop body never runs and
  reading the loop variable \<^verbatim>\<open>depth\<close> at line 414 raises \<^verbatim>\<open>UnboundLocalError\<close>.
\<close>

theorem zero_max_tree_depth:
  "(DynamicMultinomialHMC_sample_dynamics_transition env max_tree_depth max_delta_h state w = Inr r
      \<longrightarrow> 1 \<le> max_tree_depth) \<and>
   (mom (store w ! state) \<noteq> None \<longrightarrow>
      DynamicMultinomialHMC_sample_dynamics_transition env 0 max_delta_h state w =
        Inl (UnboundLocalError ''depth''))"
proof -
  have "max_tree_depth \<le> 0 \<Longrightarrow>
      DynamicMultinomialHMC_sample_dynamics_transition env max_tree_depth max_delta_h state w \<noteq> Inr r"
    by (auto simp add: DynamicMultinomialHMC_sample_dynamics_transition_def Let_def
        split: option.splits)
  moreover have "mom (store w ! state) \<noteq> None \<Longrightarrow>
      DynamicMultinomialHMC_sample_dynamics_transition env 0 max_delta_h state w =
        Inl (UnboundLocalError ''depth'')"
    by (auto simp add: DynamicMultinomialHMC_sample_dynamics_transition_def Let_def
        split: option.splits)
  ultimately show ?thesis by force
qed

theorem zero_max_tree_depth_witness:
  "DynamicMultinomialHMC_sample_dynamics_transition toy_hmc 0 1000 0 (toy_world 1 []) =
     Inl (UnboundLocalError ''depth'') \<and>
   (\<exists>r. DynamicMultinomialHMC_sample_dynamics_transition toy_hmc 1 1000 0 (toy_world 1 []) =
       Inr r) \<and>
   (1 :: int) \<le> 1"
proof -
  have m: "mom (store (toy_world 1 []) ! 0) \<noteq> None" by (simp add: toy_defs)
  from zero_max_tree_depth [of toy_hmc 1 1000 0 "toy_world 1 []"] m toy_dynamic_depth_one
  show ?thesis by simp
qed


subsection \<open>Chain statistics\<close>

lemma np_empty_written: "np_empty n = Inr a \<Longrightarrow> length a = nat n \<and> written_upto 0 a \<and> 0 \<le> n"
  by (auto simp add: np_empty_def written_upto_def split: if_splits)

lemma setitem_written:
  "setitem a (int k) v = Inr a' \<Longrightarrow> written_upto k a \<Longrightarrow>
   length a' = length a \<and> written_upto (Suc k) a' \<and> k < length a"
  by (auto simp add: setitem_def written_upto_def Let_def nth_list_update less_Suc_eq
      split: if_splits)

lemma written_upto_all: "written_upto k a \<Longrightarrow> length a \<le> k \<Longrightarrow> written_once a"
  by (auto simp add: written_upto_def written_once_def list_all_length)

text \<open>The invariant of the chain loop, for any \<^verbatim>\<open>update_chain_stats\<close> that keeps it.\<close>

lemma chain_loop_invariant:
  assumes step: "\<And>s cs ts cs'. ucs (int s + 1) cs ts = Inr cs' \<Longrightarrow> I s cs \<Longrightarrow> I (Suc s) cs'"
  shows "chain_loop smt sdt ucs fs [k..<m] state cs vcs w = Inr (state', cs', vcs', w') \<Longrightarrow>
         k \<le> m \<Longrightarrow> I k cs \<Longrightarrow> I m cs'"
proof (induction "m - k" arbitrary: k state cs vcs w)
  case 0
  then show ?case by simp
next
  case (Suc j)
  then have lt: "k < m" by simp
  then have upt: "[k..<m] = k # [Suc k..<m]" by (simp add: upt_conv_Cons)
  from Suc.prems(1) obtain state2 cs2 vcs2 w2 ts where
    u: "ucs (int k + 1) cs ts = Inr cs2"
    and rec: "chain_loop smt sdt ucs fs [Suc k..<m] state2 cs2 vcs2 w2 = Inr (state', cs', vcs',
        w')"
    unfolding upt
    by (auto simp add: Let_def split: prod.splits sum.splits)
  from step [OF u] Suc.prems(3) have "I (Suc k) cs2" by blast
  moreover have "j = m - Suc k" using Suc.hyps(2) by simp
  ultimately show ?case using Suc.hyps(1) rec lt by simp
qed

lemma metropolis_init_inv:
  "BaseMetropolisHMC_initialise_chain_stats env state n_sample w = Inr cs \<Longrightarrow>
   1 \<le> n_sample \<and> metropolis_inv (nat n_sample) 0 cs"
  unfolding BaseMetropolisHMC_initialise_chain_stats_def metropolis_inv_def
  by (auto split: sum.splits dest!: np_empty_written dest: setitem_written [of _ 0, simplified]
      simp add: nat_diff_distrib)

lemma metropolis_update_inv:
  "BaseMetropolisHMC_update_chain_stats (int s + 1) cs ts = Inr cs' \<Longrightarrow>
   metropolis_inv n s cs \<Longrightarrow> metropolis_inv n (Suc s) cs'"
  unfolding BaseMetropolisHMC_update_chain_stats_def metropolis_inv_def
  using setitem_written [of "chain_stats.hamiltonian cs" "Suc s"]
    setitem_written [of "chain_stats.n_step cs" s]
    setitem_written [of "chain_stats.accept_prob cs" s]
  by (auto split: sum.splits simp add: add.commute)

lemma dynamic_init_inv:
  "DynamicMultinomialHMC_initialise_chain_stats env state n_sample w = Inr cs \<Longrightarrow>
   1 \<le> n_sample \<and> dynamic_inv (nat n_sample) 0 cs"
  unfolding DynamicMultinomialHMC_initialise_chain_stats_def dynamic_inv_def metropolis_inv_def
  by (auto split: sum.splits dest!: np_empty_written dest: setitem_written [of _ 0, simplified]
      simp add: nat_diff_distrib chain_stats.defs)

lemma dynamic_update_inv:
  "DynamicMultinomialHMC_update_chain_stats (int s + 1) cs ts = Inr cs' \<Longrightarrow>
   dynamic_inv n s cs \<Longrightarrow> dynamic_inv n (Suc s) cs'"
  unfolding DynamicMultinomialHMC_update_chain_stats_def dynamic_inv_def metropolis_inv_def
  using setitem_written [of "chain_stats.hamiltonian cs" "Suc s"]
    setitem_written [of "chain_stats.n_step cs" s]
    setitem_written [of "chain_stats.accept_prob cs" s]
    setitem_written [of "dynamic_chain_stats.tree_depth cs" s]
    setitem_written [of "dynamic_chain_stats.divergent cs" s]
  by (auto split: sum.splits simp add: add.commute chain_stats.defs)

lemma metropolis_chain_inv:
  assumes "sample_chain env smt sdt (BaseMetropolisHMC_initialise_chain_stats env)
             BaseMetropolisHMC_update_chain_stats n_sample state fs w = Inr ((vcs, cs), w')"
  shows "1 \<le> n_sample \<and> metropolis_inv (nat n_sample) (nat n_sample - 1) cs"
proof -
  from assms obtain w1 cs0 vcs0 st' where
    init: "BaseMetropolisHMC_initialise_chain_stats env state n_sample w1 = Inr cs0"
    and loop: "chain_loop smt sdt BaseMetropolisHMC_update_chain_stats fs
        [0..<nat (n_sample - 1)] state cs0 vcs0 w1 = Inr (st', cs, vcs, w')"
    unfolding sample_chain_def
    by (auto simp add: Let_def split: sum.splits prod.splits)
  from metropolis_init_inv [OF init]
  have n: "1 \<le> n_sample" and i0: "metropolis_inv (nat n_sample) 0 cs0" by auto
  have "metropolis_inv (nat n_sample) (nat (n_sample - 1)) cs"
    by (rule chain_loop_invariant [where I = "metropolis_inv (nat n_sample)", OF _ loop _ i0])
      (auto intro: metropolis_update_inv)
  with n show ?thesis by (simp add: nat_diff_distrib)
qed

lemma dynamic_chain_inv:
  assumes "sample_chain env smt sdt (DynamicMultinomialHMC_initialise_chain_stats env)
             DynamicMultinomialHMC_update_chain_stats n_sample state fs w = Inr ((vcs, cs), w')"
  shows "1 \<le> n_sample \<and> dynamic_inv (nat n_sample) (nat n_sample - 1) cs"
proof -
  from assms obtain w1 cs0 vcs0 st' where
    init: "DynamicMultinomialHMC_initialise_chain_stats env state n_sample w1 = Inr cs0"
    and loop: "chain_loop smt sdt DynamicMultinomialHMC_update_chain_stats fs
        [0..<nat (n_sample - 1)] state cs0 vcs0 w1 = Inr (st', cs, vcs, w')"
    unfolding sample_chain_def
    by (auto simp add: Let_def split: sum.splits prod.splits)
  from dynamic_init_inv [OF init]
  have n: "1 \<le> n_sample" and i0: "dynamic_inv (nat n_sample) 0 cs0" by auto
  have "dynamic_inv (nat n_sample) (nat (n_sample - 1)) cs"
    by (rule chain_loop_invariant [where I = "dynamic_inv (nat n_sample)", OF _ loop _ i0])
      (auto intro: dynamic_update_inv)
  with n show ?thesis by (simp add: nat_diff_distrib)
qed

text \<open>
  Claim C6, as amended. A chain run that returns was asked for \<open>n_sample \<ge> 1\<close> samples.
  Its statistics arrays are those allocated by the one call of
  \<^verbatim>\<open>initialise_chain_stats\<close>: the array of energies has \<open>n_sample\<close> cells, and the arrays
  of step counts and acceptance probabilities (and, for the dynamic sampler, of tree
  depths and divergence flags) have \<open>n_sample - 1\<close> cells, one for each transition. Every
  cell of every array has been assigned exactly once when the run returns. This holds
  for any momentum and dynamics transitions the driver is run with.
\<close>

theorem chain_stats_written_once:
  "(sample_chain env smt sdt (BaseMetropolisHMC_initialise_chain_stats env)
      BaseMetropolisHMC_update_chain_stats n_sample state fs w = Inr ((vcs, cs), w') \<longrightarrow>
    1 \<le> n_sample \<and>
    length (chain_stats.hamiltonian cs) = nat n_sample \<and>
    length (chain_stats.n_step cs) = nat n_sample - 1 \<and>
    length (chain_stats.accept_prob cs) = nat n_sample - 1 \<and>
    written_once (chain_stats.hamiltonian cs) \<and>
    written_once (chain_stats.n_step cs) \<and>
    written_once (chain_stats.accept_prob cs)) \<and>
   (sample_chain env smt sdt' (DynamicMultinomialHMC_initialise_chain_stats env)
      DynamicMultinomialHMC_update_chain_stats n_sample state fs w = Inr ((vcs', dcs), w'') \<longrightarrow>
    1 \<le> n_sample \<and>
    length (chain_stats.hamiltonian dcs) = nat n_sample \<and>
    length (chain_stats.n_step dcs) = nat n_sample - 1 \<and>
    length (chain_stats.accept_prob dcs) = nat n_sample - 1 \<and>
    length (dynamic_chain_stats.tree_depth dcs) = nat n_sample - 1 \<and>
    length (dynamic_chain_stats.divergent dcs) = nat n_sample - 1 \<and>
    written_once (chain_stats.hamiltonian dcs) \<and>
    written_once (chain_stats.n_step dcs) \<and>
    written_once (chain_stats.accept_prob dcs) \<and>
    written_once (dynamic_chain_stats.tree_depth dcs) \<and>
    written_once (dynamic_chain_stats.divergent dcs))"
proof (intro conjI impI)
  assume a: "sample_chain env smt sdt (BaseMetropolisHMC_initialise_chain_stats env)
      BaseMetropolisHMC_update_chain_stats n_sample state fs w = Inr ((vcs, cs), w')"
  from metropolis_chain_inv [OF a]
  have n: "1 \<le> n_sample" and i: "metropolis_inv (nat n_sample) (nat n_sample - 1) cs" by auto
  from n show "1 \<le> n_sample" .
  from i show "length (chain_stats.hamiltonian cs) = nat n_sample"
    "length (chain_stats.n_step cs) = nat n_sample - 1"
    "length (chain_stats.accept_prob cs) = nat n_sample - 1"
    by (simp_all add: metropolis_inv_def)
  from i n show "written_once (chain_stats.hamiltonian cs)"
    by (auto simp add: metropolis_inv_def intro!: written_upto_all)
  from i show "written_once (chain_stats.n_step cs)" "written_once (chain_stats.accept_prob cs)"
    by (auto simp add: metropolis_inv_def intro!: written_upto_all)
next
  assume a: "sample_chain env smt sdt' (DynamicMultinomialHMC_initialise_chain_stats env)
      DynamicMultinomialHMC_update_chain_stats n_sample state fs w = Inr ((vcs', dcs), w'')"
  from dynamic_chain_inv [OF a]
  have n: "1 \<le> n_sample" and i: "dynamic_inv (nat n_sample) (nat n_sample - 1) dcs" by auto
  from n show "1 \<le> n_sample" .
  from i show "length (chain_stats.hamiltonian dcs) = nat n_sample"
    "length (chain_stats.n_step dcs) = nat n_sample - 1"
    "length (chain_stats.accept_prob dcs) = nat n_sample - 1"
    "length (dynamic_chain_stats.tree_depth dcs) = nat n_sample - 1"
    "length (dynamic_chain_stats.divergent dcs) = nat n_sample - 1"
    by (simp_all add: dynamic_inv_def metropolis_inv_def chain_stats.defs)
  from i n show "written_once (chain_stats.hamiltonian dcs)"
    by (auto simp add: dynamic_inv_def metropolis_inv_def chain_stats.defs intro!: written_upto_all)
  from i show "written_once (chain_stats.n_step dcs)" "written_once (chain_stats.accept_prob dcs)"
    "written_once (dynamic_chain_stats.tree_depth dcs)"
    "written_once (dynamic_chain_stats.divergent dcs)"
    by (auto simp add: dynamic_inv_def metropolis_inv_def chain_stats.defs intro!: written_upto_all)
qed

lemma toy_static_chain:
  "StaticMetropolisHMC_sample_chain toy_hmc 1 2 0 [extract_pos] (toy_world (- 1) [1 / 2]) =
     Inr (([[[[0]], [[- 1]]]],
           \<lparr>chain_stats.hamiltonian = [[0], [- 1]], chain_stats.n_step = [[1]],
            chain_stats.accept_prob = [[1]]\<rparr>),
          \<lparr>store = [(toy_state (- 1))\<lparr>mom := Some [5]\<rparr>,
                    (toy_state (- 1))\<lparr>pos := [- 1], mom := Some [5]\<rparr>],
           rng = [], warnings = []\<rparr>)"
  by (simp add: StaticMetropolisHMC_sample_chain_def sample_chain_def toy_defs
      BaseMetropolisHMC_initialise_chain_stats_def BaseMetropolisHMC_update_chain_stats_def
      BaseHamiltonianMonteCarlo_sample_momentum_transition_def
      StaticMetropolisHMC_sample_dynamics_transition_def
      BaseMetropolisHMC_sample_dynamics_transition_def negate_dir_def
      np_empty_def setitem_def extract_pos_def Let_def numeral_2_eq_2 one_less_twice_exp_one)

lemma toy_dynamic_chain:
  "DynamicMultinomialHMC_sample_chain toy_hmc 1 1000 2 0 [extract_pos] (toy_world 1 []) =
     Inr (([[[[0]], [[1]]]],
           \<lparr>chain_stats.hamiltonian = [[0], [1]], chain_stats.n_step = [[1]],
            chain_stats.accept_prob = [[exp (- 1)]],
            dynamic_chain_stats.tree_depth = [[0]],
            dynamic_chain_stats.divergent = [[False]]\<rparr>),
          \<lparr>store = [(toy_state 1)\<lparr>mom := Some [5]\<rparr>,
                    (toy_state (- 1))\<lparr>mom := Some [5]\<rparr>,
                    (toy_state 1)\<lparr>mom := Some [5]\<rparr>,
                    (toy_state 1)\<lparr>pos := [1], mom := Some [5]\<rparr>],
           rng = [], warnings = []\<rparr>)"
  by (simp add: DynamicMultinomialHMC_sample_chain_def sample_chain_def toy_defs
      DynamicMultinomialHMC_initialise_chain_stats_def
      DynamicMultinomialHMC_update_chain_stats_def
      BaseHamiltonianMonteCarlo_sample_momentum_transition_def
      DynamicMultinomialHMC_sample_dynamics_transition_def
      termination_criterion_def vec_add_def dot_def LogRepFloat_log_val_def
      np_empty_def setitem_def extract_pos_def Let_def tree_stats.defs numeral_2_eq_2
      direction_eq_one)

theorem chain_stats_written_once_witness:
  "StaticMetropolisHMC_sample_chain toy_hmc 1 2 0 [extract_pos] (toy_world (- 1) [1 / 2]) =
     Inr (([[[[0]], [[- 1]]]],
           \<lparr>chain_stats.hamiltonian = [[0], [- 1]], chain_stats.n_step = [[1]],
            chain_stats.accept_prob = [[1]]\<rparr>),
          \<lparr>store = [(toy_state (- 1))\<lparr>mom := Some [5]\<rparr>,
                    (toy_state (- 1))\<lparr>pos := [- 1], mom := Some [5]\<rparr>],
           rng = [], warnings = []\<rparr>) \<and>
   written_once [[0 :: real], [- 1]] \<and> written_once [[1 :: int]] \<and>
   written_once [[1 :: real]] \<and>
   length [[0 :: real], [- 1]] = nat 2 \<and> length [[1 :: int]] = nat 2 - 1 \<and>
   DynamicMultinomialHMC_sample_chain toy_hmc 1 1000 2 0 [extract_pos] (toy_world 1 []) =
     Inr (([[[[0]], [[1]]]],
           \<lparr>chain_stats.hamiltonian = [[0], [1]], chain_stats.n_step = [[1]],
            chain_stats.accept_prob = [[exp (- 1)]],
            dynamic_chain_stats.tree_depth = [[0]],
            dynamic_chain_stats.divergent = [[False]]\<rparr>),
          \<lparr>store = [(toy_state 1)\<lparr>mom := Some [5]\<rparr>,
                    (toy_state (- 1))\<lparr>mom := Some [5]\<rparr>,
                    (toy_state 1)\<lparr>mom := Some [5]\<rparr>,
                    (toy_state 1)\<lparr>pos := [1], mom := Some [5]\<rparr>],
           rng = [], warnings = []\<rparr>) \<and>
   written_once [[0 :: nat]] \<and> written_once [[False]] \<and> length [[False]] = nat 2 - 1"
  using
    chain_stats_written_once [THEN conjunct1, THEN mp,
      OF toy_static_chain [unfolded StaticMetropolisHMC_sample_chain_def]]
    chain_stats_written_once [THEN conjunct2, THEN mp,
      OF toy_dynamic_chain [unfolded DynamicMultinomialHMC_sample_chain_def]]
    toy_static_chain toy_dynamic_chain
  by simp

text \<open>
  The claim as stated gives every statistics array the length \<open>n_sample\<close>. For three
  samples only the array of energies has three cells; the others have two.
\<close>

theorem chain_stats_lengths:
  "BaseMetropolisHMC_initialise_chain_stats toy_hmc 0 3 (toy_world 1 []) =
     Inr \<lparr>chain_stats.hamiltonian = [[0], [], []], chain_stats.n_step = [[], []],
          chain_stats.accept_prob = [[], []]\<rparr> \<and>
   DynamicMultinomialHMC_initialise_chain_stats toy_hmc 0 3 (toy_world 1 []) =
     Inr \<lparr>chain_stats.hamiltonian = [[0], [], []], chain_stats.n_step = [[], []],
          chain_stats.accept_prob = [[], []], dynamic_chain_stats.tree_depth = [[], []],
          dynamic_chain_stats.divergent = [[], []]\<rparr>"
  by (simp add: BaseMetropolisHMC_initialise_chain_stats_def
      DynamicMultinomialHMC_initialise_chain_stats_def np_empty_def setitem_def toy_defs
      numeral_3_eq_3 numeral_2_eq_2)

subsection \<open>The correlated momentum transition\<close>

text \<open>
  Claim C1. The specification and the unreachable lines 240-246 say that the method
  returns the state with its momentum updated (replaced by the sample for coefficient
  1). With the default coefficient 1, a state of momentum \<open>[1]\<close> and a system that
  samples the momentum \<open>[5]\<close>, the method returns the array \<open>[5]\<close> in place of the state
  and leaves the momentum of the state at \<open>[1]\<close>, where the documented update returns
  the state with momentum \<open>[5]\<close>.
\<close>

theorem correlated_momentum_returns_sample:
  "BaseCorrelatedMomentumHMC_sample_momentum_transition toy_hmc 1 0 (toy_world 1 []) =
     (ReturnedArray [5], toy_world 1 []) \<and>
   documented_correlated_momentum_transition toy_hmc 1 0 (toy_world 1 []) =
     Inr (ReturnedState 0,
          \<lparr>store = [(toy_state 1)\<lparr>mom := Some [5]\<rparr>], rng = [], warnings = []\<rparr>)"
  by (simp add: BaseCorrelatedMomentumHMC_sample_momentum_transition_def
      documented_correlated_momentum_transition_def toy_defs)

end
